theory Spec2Isabelle
  imports Complex_Main "HOL-Library.Word" "HOL-Library.Sublist" "HOL-Library.Multiset"
    "HOL-Library.Log_Nat"
begin

section \<open>JavaScript strings\<close>

text \<open>
  A JavaScript string is a sequence of UTF-16 code units. The keyword list of
  \<^verbatim>\<open>process_media/index.ts\<close> holds the entry \<^verbatim>\<open>'caf\<surd>\<copyright>'\<close> (code units U+221A and
  U+00A9), so an 8-bit character type would not do. \<open>js\<close> turns an ASCII literal
  into such a string.
\<close>

type_synonym jschar = "16 word"
type_synonym jsstring = "jschar list"

definition js :: "string \<Rightarrow> jsstring" where
  "js s = map (\<lambda>c. word_of_nat (of_char c)) s"

text \<open>
  What the language runtime and the validation library supply, and the source does not
  define: \<^verbatim>\<open>String.prototype.toLowerCase\<close> (the Unicode case mapping), and the
  \<^verbatim>\<open>.uuid()\<close> and \<^verbatim>\<open>.url()\<close> string checks of zod. They are parameters of the model.
\<close>

record runtime =
  toLowerCase :: "jsstring \<Rightarrow> jsstring"
  is_uuid :: "jsstring \<Rightarrow> bool"
  is_url :: "jsstring \<Rightarrow> bool"

text \<open>
  The lower-casing of the ASCII letters, the part of \<^verbatim>\<open>toLowerCase\<close> that is the same in
  every runtime; used to instantiate the parameter at concrete inputs.
\<close>

definition isUpperAZ :: "jschar \<Rightarrow> bool" where
  "isUpperAZ c \<longleftrightarrow> 0x41 \<le> c \<and> c \<le> 0x5A"

definition isLowerAZ :: "jschar \<Rightarrow> bool" where
  "isLowerAZ c \<longleftrightarrow> 0x61 \<le> c \<and> c \<le> 0x7A"

definition ascii_lower :: "jsstring \<Rightarrow> jsstring" where
  "ascii_lower s = map (\<lambda>c. if isUpperAZ c then c + 0x20 else c) s"

text \<open>
  A runtime for the examples: the ASCII lower-casing; as UUIDs the strings of 36 code
  units with hyphens at the four places of the 8-4-4-4-12 form; as URLs the strings that
  start with \<^verbatim>\<open>http://\<close> or \<^verbatim>\<open>https://\<close>.
\<close>

definition ascii_runtime :: runtime where
  "ascii_runtime =
     \<lparr> toLowerCase = ascii_lower,
       is_uuid = (\<lambda>s. length s = 36 \<and> s ! 8 = 0x2D \<and> s ! 13 = 0x2D \<and> s ! 18 = 0x2D \<and> s ! 23 = 0x2D),
       is_url = (\<lambda>s. prefix (js ''http://'') s \<or> prefix (js ''https://'') s) \<rparr>"

text \<open>
  White space and line terminators of ECMAScript: what \<^verbatim>\<open>trim()\<close> strips and what
  \<^verbatim>\<open>\s\<close> matches in a regular expression.
\<close>

definition isWhiteSpace :: "jschar \<Rightarrow> bool" where
  "isWhiteSpace c \<longleftrightarrow>
     c \<in> {0x09, 0x0A, 0x0B, 0x0C, 0x0D, 0x20, 0xA0, 0x1680, 0x2028, 0x2029, 0x202F,
          0x205F, 0x3000, 0xFEFF}
     \<or> (0x2000 \<le> c \<and> c \<le> 0x200A)"

text \<open>\<^verbatim>\<open>\w\<close> is \<^verbatim>\<open>[A-Za-z0-9_]\<close>.\<close>

definition isWordChar :: "jschar \<Rightarrow> bool" where
  "isWordChar c \<longleftrightarrow> isUpperAZ c \<or> isLowerAZ c \<or> (0x30 \<le> c \<and> c \<le> 0x39) \<or> c = 0x5F"

definition trim :: "jsstring \<Rightarrow> jsstring" where
  "trim s = rev (dropWhile isWhiteSpace (rev (dropWhile isWhiteSpace s)))"

text \<open>\<^verbatim>\<open>s.split(sep)\<close> for a separator of one code unit: never an empty array.\<close>

fun split_str :: "jschar \<Rightarrow> jsstring \<Rightarrow> jsstring list" where
  "split_str sep [] = [[]]"
| "split_str sep (c # cs) =
     (if c = sep then [] # split_str sep cs
      else (case split_str sep cs of
              [] \<Rightarrow> [[c]]
            | l # ls \<Rightarrow> (c # l) # ls))"

text \<open>\<^verbatim>\<open>s.includes(pat)\<close>: \<open>pat\<close> occurs in \<open>s\<close> as a contiguous run.\<close>

definition js_includes :: "jsstring \<Rightarrow> jsstring \<Rightarrow> bool" where
  "js_includes s pat \<longleftrightarrow> sublist pat s"

text \<open>\<^verbatim>\<open>xs.join(sep)\<close>.\<close>

fun join_str :: "jsstring \<Rightarrow> jsstring list \<Rightarrow> jsstring" where
  "join_str sep [] = []"
| "join_str sep [x] = x"
| "join_str sep (x # y # ys) = x @ sep @ join_str sep (y # ys)"

section \<open>Regular expressions\<close>

text \<open>
  The regular expressions of the source use character classes, concatenation and
  repetition only. They are matched against the whole string (\<^verbatim>\<open>^...$\<close>, no flags) by
  derivatives.
\<close>

datatype rexp =
    Zero
  | One
  | Cls "jschar \<Rightarrow> bool"
  | Seq rexp rexp
  | Alt rexp rexp
  | Star rexp

definition Plus :: "rexp \<Rightarrow> rexp" where
  "Plus r = Seq r (Star r)"

fun nullable :: "rexp \<Rightarrow> bool" where
  "nullable Zero = False"
| "nullable One = True"
| "nullable (Cls p) = False"
| "nullable (Seq r s) = (nullable r \<and> nullable s)"
| "nullable (Alt r s) = (nullable r \<or> nullable s)"
| "nullable (Star r) = True"

fun deriv :: "jschar \<Rightarrow> rexp \<Rightarrow> rexp" where
  "deriv c Zero = Zero"
| "deriv c One = Zero"
| "deriv c (Cls p) = (if p c then One else Zero)"
| "deriv c (Seq r s) =
     (if nullable r then Alt (Seq (deriv c r) s) (deriv c s) else Seq (deriv c r) s)"
| "deriv c (Alt r s) = Alt (deriv c r) (deriv c s)"
| "deriv c (Star r) = Seq (deriv c r) (Star r)"

fun matches :: "rexp \<Rightarrow> jsstring \<Rightarrow> bool" where
  "matches r [] = nullable r"
| "matches r (c # cs) = matches (deriv c r) cs"

section \<open>Candidate extraction\<close>

definition FOOD_KEYWORDS :: "jsstring list" where
  "FOOD_KEYWORDS =
     [js ''burger'', js ''pizza'', js ''sushi'', js ''caf'' @ [0x221A, 0xA9], js ''cafe'',
      js ''bakery'', js ''bar'', js ''grill'',
      js ''kebab'', js ''ramen'', js ''taco'', js ''steak'', js ''bistro'', js ''brunch'',
      js ''restaurant'',
      js ''diner'', js ''eatery'', js ''kitchen'', js ''food'', js ''dining'', js ''cuisine'']"

text \<open>\<^verbatim>\<open>/^[A-Z][a-z]+(\s+[A-Z][a-z]+)*$/\<close>\<close>

definition titleCaseRegex :: rexp where
  "titleCaseRegex =
     Seq (Cls isUpperAZ) (Seq (Plus (Cls isLowerAZ))
       (Star (Seq (Plus (Cls isWhiteSpace)) (Seq (Cls isUpperAZ) (Plus (Cls isLowerAZ))))))"

definition hasFoodKeyword :: "runtime \<Rightarrow> jsstring \<Rightarrow> bool" where
  "hasFoodKeyword R line \<longleftrightarrow>
     list_ex (\<lambda>keyword. js_includes (toLowerCase R line) (toLowerCase R keyword)) FOOD_KEYWORDS"

definition isTitleCase :: "jsstring \<Rightarrow> bool" where
  "isTitleCase line \<longleftrightarrow> matches titleCaseRegex line"

definition reasonableLength :: "jsstring \<Rightarrow> bool" where
  "reasonableLength line \<longleftrightarrow> length line \<ge> 3 \<and> length line \<le> 50"

definition hasSocialIndicator :: "jsstring \<Rightarrow> bool" where
  "hasSocialIndicator line \<longleftrightarrow> js_includes line (js ''@'') \<or> js_includes line (js ''#'')"

text \<open>The condition under which the loop pushes a line.\<close>

definition is_candidate :: "runtime \<Rightarrow> jsstring \<Rightarrow> bool" where
  "is_candidate R line \<longleftrightarrow>
     (hasFoodKeyword R line \<or> (isTitleCase line \<and> reasonableLength line) \<or> hasSocialIndicator line)
     \<and> \<not> js_includes line (js ''http'') \<and> \<not> js_includes line (js ''www'')"

text \<open>
  \<^verbatim>\<open>[...new Set(candidates)]\<close>: the elements are added one by one, an element already in
  the set is skipped, and the set is read back in insertion order.
\<close>

fun set_add_all :: "'a list \<Rightarrow> 'a list \<Rightarrow> 'a list" where
  "set_add_all acc [] = acc"
| "set_add_all acc (x # xs) = set_add_all (if x \<in> set acc then acc else acc @ [x]) xs"

definition spread_new_Set :: "'a list \<Rightarrow> 'a list" where
  "spread_new_Set xs = set_add_all [] xs"

text \<open>The trimmed, non-empty lines of a text.\<close>

definition text_lines :: "jsstring \<Rightarrow> jsstring list" where
  "text_lines text = filter (\<lambda>line. length line > 0) (map trim (split_str 0x0A text))"

definition extractPOICandidates :: "runtime \<Rightarrow> jsstring \<Rightarrow> jsstring list" where
  "extractPOICandidates R text =
     (let lines = text_lines text;
          candidates = filter (is_candidate R) lines
      in spread_new_Set candidates)"

text \<open>Position of the first occurrence of an element (the length when there is none).\<close>

fun first_index :: "'a list \<Rightarrow> 'a \<Rightarrow> nat" where
  "first_index [] y = 0"
| "first_index (x # xs) y = (if x = y then 0 else Suc (first_index xs y))"

section \<open>JavaScript numbers\<close>

text \<open>
  A JavaScript number is an IEEE 754 double, here the rational that it denotes. An
  arithmetic operation gives the double nearest to the exact result, a tie going to the
  even significand; so does a decimal literal. \<open>to_double\<close> is that rounding to a
  significand of 53 bits. It leaves the exponent free: the doubles have exponents from
  -1022 to 1023, and the numbers that the program computes (lengths, distances, their
  quotients, which are 0 or at least one over a length, and sums with 0.1) are far from
  both ends.
\<close>

definition round_half_even :: "rat \<Rightarrow> int" where
  "round_half_even r =
     (if r - of_int \<lfloor>r\<rfloor> < 1 / 2 then \<lfloor>r\<rfloor>
      else if r - of_int \<lfloor>r\<rfloor> > 1 / 2 then \<lfloor>r\<rfloor> + 1
      else if even \<lfloor>r\<rfloor> then \<lfloor>r\<rfloor> else \<lfloor>r\<rfloor> + 1)"

text \<open>
  For a positive \<open>x\<close>, the \<open>e\<close> with \<open>2\<^sup>e \<le> x < 2\<^sup>e\<^sup>+\<^sup>1\<close>, from the bit lengths of its
  numerator and its denominator.
\<close>

definition binary_exponent :: "rat \<Rightarrow> int" where
  "binary_exponent x =
     (if 2 powi (bitlen (fst (quotient_of x)) - bitlen (snd (quotient_of x))) \<le> x
      then bitlen (fst (quotient_of x)) - bitlen (snd (quotient_of x))
      else bitlen (fst (quotient_of x)) - bitlen (snd (quotient_of x)) - 1)"

definition round_positive :: "rat \<Rightarrow> rat" where
  "round_positive x =
     of_int (round_half_even (x * 2 powi (52 - binary_exponent x))) * 2 powi (binary_exponent x - 52)"

definition to_double :: "rat \<Rightarrow> rat" where
  "to_double x = (if x = 0 then 0 else if x > 0 then round_positive x else - round_positive (- x))"

text \<open>\<^verbatim>\<open>a + b\<close>, \<^verbatim>\<open>a - b\<close> and \<^verbatim>\<open>a / b\<close> on numbers, and the literal \<^verbatim>\<open>0.1\<close>.\<close>

definition num_add :: "rat \<Rightarrow> rat \<Rightarrow> rat" where
  "num_add a b = to_double (a + b)"

definition num_sub :: "rat \<Rightarrow> rat \<Rightarrow> rat" where
  "num_sub a b = to_double (a - b)"

definition num_div :: "rat \<Rightarrow> rat \<Rightarrow> rat" where
  "num_div a b = to_double (a / b)"

definition tenth :: rat where
  "tenth = to_double (1 / 10)"

section \<open>Similarity scoring\<close>

record PlaceSearchResult =
  name :: jsstring
  address :: jsstring
  lat :: rat
  lng :: rat
  place_id :: jsstring
  rating :: "rat option"
  types :: "jsstring list option"

record ScoredPlace = PlaceSearchResult +
  score :: rat

text \<open>
  One row of the matrix from the row above: \<open>d\<close> and \<open>u\<close> are
  \<^verbatim>\<open>matrix[j - 1][i - 1]\<close> and \<^verbatim>\<open>matrix[j - 1][i]\<close>, \<open>left\<close> is \<^verbatim>\<open>matrix[j][i - 1]\<close>.
\<close>

fun row_step :: "jschar \<Rightarrow> jsstring \<Rightarrow> nat list \<Rightarrow> nat \<Rightarrow> nat list" where
  "row_step c (a # as) (d # u # prev) left =
     (let indicator = (if a = c then 0 else 1);
          v = min (min (left + 1) (u + 1)) (d + indicator)
      in v # row_step c as (u # prev) v)"
| "row_step c as prev left = []"

definition next_row :: "jsstring \<Rightarrow> nat list \<Rightarrow> nat \<times> jschar \<Rightarrow> nat list" where
  "next_row str1 prev jc = (case jc of (j, c) \<Rightarrow> j # row_step c str1 prev j)"

definition levenshteinDistance :: "jsstring \<Rightarrow> jsstring \<Rightarrow> nat" where
  "levenshteinDistance str1 str2 =
     last (foldl (next_row str1) [0 ..< length str1 + 1] (zip [1 ..< length str2 + 1] str2))"


definition calculateSimilarity :: "runtime \<Rightarrow> jsstring \<Rightarrow> jsstring \<Rightarrow> rat" where
  "calculateSimilarity R str1 str2 =
     (let s1 = toLowerCase R str1;
          s2 = toLowerCase R str2
      in if s1 = s2 then 1
         else let longer = (if length s1 > length s2 then s1 else s2);
                  shorter = (if length s1 > length s2 then s2 else s1)
              in if length longer = 0 then 1
                 else let distance = levenshteinDistance longer shorter
                      in num_div (num_sub (of_nat (length longer)) (of_nat distance))
                           (of_nat (length longer)))"

text \<open>\<^verbatim>\<open>place.types?.some(type => FOOD_KEYWORDS.some(keyword => type.includes(keyword)))\<close>\<close>

definition hasFoodType :: "'a PlaceSearchResult_scheme \<Rightarrow> bool" where
  "hasFoodType place \<longleftrightarrow>
     (case types place of
        None \<Rightarrow> False
      | Some ts \<Rightarrow> list_ex (\<lambda>type. list_ex (\<lambda>keyword. js_includes type keyword) FOOD_KEYWORDS) ts)"

text \<open>\<^verbatim>\<open>place.rating && place.rating > 4.0\<close>: an absent rating and the rating 0 are falsy.\<close>

definition hasHighRating :: "'a PlaceSearchResult_scheme \<Rightarrow> bool" where
  "hasHighRating place \<longleftrightarrow>
     (case rating place of
        None \<Rightarrow> False
      | Some r \<Rightarrow> r \<noteq> 0 \<and> r > 4)"

text \<open>The body of the loop over the candidates: the new value of \<^verbatim>\<open>maxScore\<close>.\<close>

definition score_step :: "runtime \<Rightarrow> PlaceSearchResult \<Rightarrow> rat \<Rightarrow> jsstring \<Rightarrow> rat" where
  "score_step R place maxScore candidate =
     (let similarity = calculateSimilarity R candidate (name place);
          score1 = (if hasFoodType place then num_add similarity tenth else similarity);
          score2 = (if hasHighRating place then num_add score1 tenth else score1)
      in max maxScore score2)"

definition score_place :: "runtime \<Rightarrow> jsstring list \<Rightarrow> PlaceSearchResult \<Rightarrow> ScoredPlace" where
  "score_place R candidates place =
     PlaceSearchResult.extend place (ScoredPlace.fields (foldl (score_step R place) 0 candidates))"

text \<open>
  \<^verbatim>\<open>Array.prototype.sort(compare)\<close> is a stable sort (ECMAScript 2019): an element
  goes before another when the comparison is negative, and elements that compare equal
  keep their order. Here by insertion, from the right end of the array.
\<close>

fun insert_sorted :: "('a \<Rightarrow> 'a \<Rightarrow> rat) \<Rightarrow> 'a \<Rightarrow> 'a list \<Rightarrow> 'a list" where
  "insert_sorted compare x [] = [x]"
| "insert_sorted compare x (y # ys) =
     (if compare x y \<le> 0 then x # y # ys else y # insert_sorted compare x ys)"

definition array_sort :: "('a \<Rightarrow> 'a \<Rightarrow> rat) \<Rightarrow> 'a list \<Rightarrow> 'a list" where
  "array_sort compare xs = foldr (insert_sorted compare) xs []"

definition scorePlaceCandidates ::
    "runtime \<Rightarrow> jsstring list \<Rightarrow> PlaceSearchResult list \<Rightarrow> ScoredPlace list" where
  "scorePlaceCandidates R candidates places =
     array_sort (\<lambda>a b. num_sub (score b) (score a)) (map (score_place R candidates) places)"

text \<open>
  A similarity with the bonuses of a place added to it, the one for the categories
  first: \<^verbatim>\<open>score += 0.1\<close>, twice at most.
\<close>

definition add_bonuses :: "'a PlaceSearchResult_scheme \<Rightarrow> rat \<Rightarrow> rat" where
  "add_bonuses place similarity =
     (if hasHighRating place
      then num_add (if hasFoodType place then num_add similarity tenth else similarity) tenth
      else (if hasFoodType place then num_add similarity tenth else similarity))"

section \<open>The providers and the store\<close>

text \<open>
  The function talks to three services: the text-recognition provider, the place-search
  provider and the Supabase store. What they answer is not decided by the function, so
  it is a parameter (\<open>world\<close>); what the function does to them is recorded in the
  state: the tables, the outbound calls in order, the console.
\<close>

datatype exn =
    ZodError
  | Error jsstring
  | URIError
  | TypeError
  | FetchFailed

record OCRResult =
  result_text :: jsstring
  confidence :: rat

record annotation =
  description :: "jsstring option"
  annotation_confidence :: "rat option"

text \<open>
  The answer of the Vision endpoint: the request fails or the body is not as expected
  (an exception), a response that is not \<^verbatim>\<open>ok\<close> with its status text, or
  \<^verbatim>\<open>data.responses[0]?.textAnnotations\<close>.
\<close>

datatype vision_reply =
    VisionThrows
  | VisionNotOk jsstring
  | VisionOk "annotation list option"

text \<open>
  The answer of the Places text search: an exception, a response that is not
  \<^verbatim>\<open>ok\<close> with its status text, or the \<^verbatim>\<open>status\<close> field of the body and its results.
\<close>

datatype places_reply =
    PlacesThrows
  | PlacesNotOk jsstring
  | PlacesOk jsstring "PlaceSearchResult list"

datatype media_status = StatusUploaded | StatusProcessing | StatusNeedsConfirmation | StatusDone

record media_row =
  m_user_id :: jsstring
  m_restaurant_id :: "jsstring option"
  m_ocr_text :: "jsstring option"
  m_status :: media_status

record restaurant_row =
  r_id :: jsstring
  r_name :: jsstring
  r_address :: jsstring
  r_lat :: rat
  r_lng :: rat
  r_place_provider :: jsstring
  r_place_id :: jsstring
  r_tags :: "jsstring list"
  r_created_by :: "jsstring option"

record cache_row =
  c_normalized_query :: jsstring
  c_country :: "jsstring option"
  c_city :: "jsstring option"
  c_provider :: jsstring
  c_place_id :: jsstring
  c_name :: jsstring
  c_address :: jsstring
  c_lat :: rat
  c_lng :: rat
  c_score :: rat

datatype call =
    VisionCall jsstring
  | PlacesCall jsstring
  | MediaSelect jsstring
  | MediaUpdate jsstring "jsstring option" media_status jsstring
  | RestaurantInsert restaurant_row
  | CacheInsert cache_row

datatype console_entry =
    ConsoleLog jsstring
  | ConsoleWarn jsstring
  | ConsoleError jsstring exn

text \<open>
  The environment variables, the answers of the two providers (by image URL and by
  search query), and what the store does with each kind of write: \<open>None\<close> when it
  applies it, the error message it returns otherwise. supabase-js returns that error in
  the result of the call and raises no exception. \<open>new_restaurant_id\<close> is the
  \<^verbatim>\<open>id\<close> the store gives to an inserted restaurant.
\<close>

record world =
  FEATURE_USE_TESSERACT :: "jsstring option"
  GOOGLE_VISION_API_KEY :: "jsstring option"
  GOOGLE_MAPS_API_KEY :: "jsstring option"
  vision_fetch :: "jsstring \<Rightarrow> vision_reply"
  places_fetch :: "jsstring \<Rightarrow> places_reply"
  media_update_error :: "jsstring option"
  restaurant_insert_error :: "jsstring option"
  cache_insert_error :: "jsstring option"
  new_restaurant_id :: jsstring

record state =
  media :: "jsstring \<rightharpoonup> media_row"
  restaurants :: "restaurant_row list"
  place_cache :: "cache_row list"
  calls :: "call list"
  console :: "console_entry list"

text \<open>\<^verbatim>\<open>!v\<close> for a value that is a string or \<^verbatim>\<open>undefined\<close>.\<close>

definition falsy :: "jsstring option \<Rightarrow> bool" where
  "falsy v \<longleftrightarrow> (case v of None \<Rightarrow> True | Some str \<Rightarrow> str = [])"

definition performOCRWithVision :: "world \<Rightarrow> jsstring \<Rightarrow> state \<Rightarrow> (exn + OCRResult) \<times> state" where
  "performOCRWithVision W imageUrl s =
     (if falsy (GOOGLE_VISION_API_KEY W) then
        (Inl (Error (js ''GOOGLE_VISION_API_KEY not configured'')), s)
      else
        let s1 = s\<lparr>calls := calls s @ [VisionCall imageUrl]\<rparr>
        in case vision_fetch W imageUrl of
             VisionThrows \<Rightarrow> (Inl FetchFailed, s1)
           | VisionNotOk statusText \<Rightarrow> (Inl (Error (js ''Vision API error: '' @ statusText)), s1)
           | VisionOk None \<Rightarrow> (Inr \<lparr>result_text = [], confidence = 0\<rparr>, s1)
           | VisionOk (Some []) \<Rightarrow> (Inr \<lparr>result_text = [], confidence = 0\<rparr>, s1)
           | VisionOk (Some (a # _)) \<Rightarrow>
               (Inr \<lparr>result_text = (case description a of None \<Rightarrow> [] | Some d \<Rightarrow> d),
                     confidence = (case annotation_confidence a of None \<Rightarrow> 0 | Some c \<Rightarrow> c)\<rparr>, s1))"

definition performOCRWithTesseract :: "world \<Rightarrow> jsstring \<Rightarrow> state \<Rightarrow> (exn + OCRResult) \<times> state" where
  "performOCRWithTesseract W imageUrl s =
     (Inr \<lparr>result_text = [], confidence = 0\<rparr>,
      s\<lparr>console := console s @ [ConsoleLog (js ''Tesseract OCR not implemented yet, using Vision API'')]\<rparr>)"

text \<open>The loop over the frames: a frame whose recognition throws gives the empty text.\<close>

fun ocr_frames :: "world \<Rightarrow> jsstring list \<Rightarrow> state \<Rightarrow> OCRResult list \<times> state" where
  "ocr_frames W [] s = ([], s)"
| "ocr_frames W (frameUrl # rest) s =
     (case (if FEATURE_USE_TESSERACT W = Some (js ''true'')
            then performOCRWithTesseract W frameUrl s
            else performOCRWithVision W frameUrl s) of
        (Inr result, s1) \<Rightarrow>
          (case ocr_frames W rest s1 of (results, s2) \<Rightarrow> (result # results, s2))
      | (Inl error, s1) \<Rightarrow>
          (case ocr_frames W rest
                  (s1\<lparr>console := console s1 @ [ConsoleError (js ''OCR failed for frame '' @ frameUrl @ js '':'') error]\<rparr>) of
             (results, s2) \<Rightarrow> (\<lparr>result_text = [], confidence = 0\<rparr> # results, s2)))"

text \<open>
  \<^verbatim>\<open>encodeURIComponent\<close> throws a \<^verbatim>\<open>URIError\<close> on a string with a lone surrogate.
\<close>

fun wellFormed :: "jsstring \<Rightarrow> bool" where
  "wellFormed [] = True"
| "wellFormed (c # cs) =
     (if 0xD800 \<le> c \<and> c \<le> 0xDBFF then
        (case cs of [] \<Rightarrow> False | d # ds \<Rightarrow> 0xDC00 \<le> d \<and> d \<le> 0xDFFF \<and> wellFormed ds)
      else if 0xDC00 \<le> c \<and> c \<le> 0xDFFF then False
      else wellFormed cs)"

text \<open>\<^verbatim>\<open>let searchQuery = query; if (city) { searchQuery = `${query} in ${city}`; }\<close>\<close>

definition build_search_query :: "jsstring \<Rightarrow> jsstring option \<Rightarrow> jsstring" where
  "build_search_query query city =
     (case city of
        None \<Rightarrow> query
      | Some cty \<Rightarrow> if cty = [] then query else query @ js '' in '' @ cty)"

definition searchPlaces ::
    "world \<Rightarrow> jsstring \<Rightarrow> jsstring option \<Rightarrow> jsstring option \<Rightarrow> state
      \<Rightarrow> (exn + PlaceSearchResult list) \<times> state" where
  "searchPlaces W query country city s =
     (if falsy (GOOGLE_MAPS_API_KEY W) then
        (Inl (Error (js ''GOOGLE_MAPS_API_KEY not configured'')), s)
      else
        let searchQuery = build_search_query query city
        in if \<not> wellFormed searchQuery then (Inl URIError, s)
           else
             let s1 = s\<lparr>calls := calls s @ [PlacesCall searchQuery]\<rparr>
             in case places_fetch W searchQuery of
                  PlacesThrows \<Rightarrow> (Inl FetchFailed, s1)
                | PlacesNotOk statusText \<Rightarrow> (Inl (Error (js ''Places API error: '' @ statusText)), s1)
                | PlacesOk status results \<Rightarrow>
                    if status \<noteq> js ''OK'' then
                      (Inr [],
                       s1\<lparr>console := console s1 @ [ConsoleWarn (js ''Places API returned status: '' @ status)]\<rparr>)
                    else (Inr results, s1))"

section \<open>The request handler\<close>

text \<open>
  The handler of \<^verbatim>\<open>process_media/index.ts\<close>, from the check of the method to the
  \<^verbatim>\<open>catch\<close>. The body of the request is taken as parsed JSON with the fields of the
  schema (a body that is no JSON, or has a field of another type, ends in the same
  \<^verbatim>\<open>catch\<close>), and the Supabase client as created (its creation makes no call).
\<close>

record ProcessMediaRequest =
  media_id :: jsstring
  frame_urls :: "jsstring list"
  country :: "jsstring option"
  city :: "jsstring option"

record request =
  req_method :: jsstring
  req_body :: ProcessMediaRequest

record ResponseCandidate =
  cand_name :: jsstring
  cand_address :: jsstring
  cand_lat :: rat
  cand_lng :: rat
  cand_place_id :: jsstring
  cand_score :: rat

datatype response_body =
    PlainText jsstring
  | ConfirmedBody jsstring rat
  | NeedsConfirmationBody "ResponseCandidate list" jsstring
  | ErrorBody exn

datatype response = Response nat response_body

text \<open>
  \<^verbatim>\<open>ProcessMediaSchema.parse(body)\<close>. The body has the fields of the schema with the
  types of the schema; what is checked here is the format of the strings.
\<close>

definition ProcessMediaSchema_parse :: "runtime \<Rightarrow> ProcessMediaRequest \<Rightarrow> exn + ProcessMediaRequest" where
  "ProcessMediaSchema_parse R body =
     (if is_uuid R (media_id body) \<and> list_all (is_url R) (frame_urls body)
      then Inr body else Inl ZodError)"

text \<open>\<^verbatim>\<open>.replace(/\s+/g, ' ')\<close>\<close>

function collapse_spaces :: "jsstring \<Rightarrow> jsstring" where
  "collapse_spaces [] = []"
| "collapse_spaces (c # cs) =
     (if isWhiteSpace c then 0x20 # collapse_spaces (dropWhile isWhiteSpace cs)
      else c # collapse_spaces cs)"
  by pat_completeness auto
termination
  by (relation "measure length") (auto simp: le_imp_less_Suc length_dropWhile_le)

text \<open>\<^verbatim>\<open>allText.replace(/[^\w\s]/g, ' ').replace(/\s+/g, ' ').trim()\<close>\<close>

definition normalize_text :: "jsstring \<Rightarrow> jsstring" where
  "normalize_text allText =
     trim (collapse_spaces (map (\<lambda>c. if isWordChar c \<or> isWhiteSpace c then c else 0x20) allText))"

text \<open>\<^verbatim>\<open>ocrResults.map(r => r.text).join(' ').toLowerCase()\<close>\<close>

definition aggregate_text :: "runtime \<Rightarrow> OCRResult list \<Rightarrow> jsstring" where
  "aggregate_text R ocrResults = toLowerCase R (join_str (js '' '') (map result_text ocrResults))"

text \<open>
  \<^verbatim>\<open>supabase.from('media').update({...}).eq('id', media_id)\<close>. The handler does not
  look at the result. \<open>rid\<close> is the \<^verbatim>\<open>restaurant_id\<close> of the update, when it has one.
\<close>

definition update_media ::
    "world \<Rightarrow> jsstring \<Rightarrow> jsstring option \<Rightarrow> media_status \<Rightarrow> jsstring \<Rightarrow> state \<Rightarrow> state" where
  "update_media W mid rid st txt s =
     (let s1 = s\<lparr>calls := calls s @ [MediaUpdate mid rid st txt]\<rparr>
      in case media_update_error W of
           Some msg \<Rightarrow> s1
         | None \<Rightarrow>
             (case media s1 mid of
                None \<Rightarrow> s1
              | Some row \<Rightarrow>
                  s1\<lparr>media := (media s1)(mid \<mapsto>
                         row\<lparr>m_restaurant_id := (case rid of None \<Rightarrow> m_restaurant_id row | Some r \<Rightarrow> Some r),
                             m_status := st,
                             m_ocr_text := Some txt\<rparr>)\<rparr>))"

text \<open>\<^verbatim>\<open>supabase.from('place_cache').insert({...})\<close>, its result ignored as well.\<close>

definition insert_cache :: "world \<Rightarrow> cache_row \<Rightarrow> state \<Rightarrow> state" where
  "insert_cache W row s =
     (let s1 = s\<lparr>calls := calls s @ [CacheInsert row]\<rparr>
      in case cache_insert_error W of
           Some msg \<Rightarrow> s1
         | None \<Rightarrow> s1\<lparr>place_cache := place_cache s1 @ [row]\<rparr>)"

text \<open>The loop over \<^verbatim>\<open>candidates.slice(0, 3)\<close>: a search that throws is logged and skipped.\<close>

fun search_candidates ::
    "world \<Rightarrow> jsstring list \<Rightarrow> jsstring option \<Rightarrow> jsstring option \<Rightarrow> state
      \<Rightarrow> PlaceSearchResult list \<times> state" where
  "search_candidates W [] cntry cty s = ([], s)"
| "search_candidates W (candidate # rest) cntry cty s =
     (case searchPlaces W candidate cntry cty s of
        (Inr places, s1) \<Rightarrow>
          (case search_candidates W rest cntry cty s1 of (allPlaces, s2) \<Rightarrow> (places @ allPlaces, s2))
      | (Inl error, s1) \<Rightarrow>
          search_candidates W rest cntry cty
            (s1\<lparr>console := console s1 @
                 [ConsoleError (js ''Place search failed for candidate '' @ [0x22] @ candidate @ [0x22] @ js '':'') error]\<rparr>))"

definition to_response_candidate :: "ScoredPlace \<Rightarrow> ResponseCandidate" where
  "to_response_candidate place =
     \<lparr>cand_name = name place, cand_address = address place, cand_lat = lat place,
      cand_lng = lng place, cand_place_id = place_id place, cand_score = score place\<rparr>"

text \<open>
  The branch of the confident match: the insert into \<^verbatim>\<open>restaurants\<close> (after the select
  of the owner of the media row), whose error is thrown; then the update of the media row
  and the insert into \<^verbatim>\<open>place_cache\<close>.
\<close>

definition auto_confirm ::
    "runtime \<Rightarrow> world \<Rightarrow> ProcessMediaRequest \<Rightarrow> jsstring list \<Rightarrow> jsstring \<Rightarrow> ScoredPlace \<Rightarrow> state
      \<Rightarrow> (exn + response) \<times> state" where
  "auto_confirm R W v candidates normalizedText bestMatch s =
     (let s1 = s\<lparr>calls := calls s @ [MediaSelect (media_id v)]\<rparr>;
          restaurant =
            \<lparr>r_id = new_restaurant_id W,
             r_name = name bestMatch,
             r_address = address bestMatch,
             r_lat = lat bestMatch,
             r_lng = lng bestMatch,
             r_place_provider = js ''google'',
             r_place_id = place_id bestMatch,
             r_tags = [js ''ai-analyzed''],
             r_created_by = map_option m_user_id (media s1 (media_id v))\<rparr>;
          s2 = s1\<lparr>calls := calls s1 @ [RestaurantInsert restaurant]\<rparr>
      in case restaurant_insert_error W of
           Some message \<Rightarrow> (Inl (Error (js ''Failed to create restaurant: '' @ message)), s2)
         | None \<Rightarrow>
             let s3 = s2\<lparr>restaurants := restaurants s2 @ [restaurant]\<rparr>;
                 s4 = update_media W (media_id v) (Some (r_id restaurant)) StatusDone normalizedText s3
             in case candidates of
                  [] \<Rightarrow> (Inl TypeError, s4)
                | candidate0 # _ \<Rightarrow>
                    (Inr (Response 200 (ConfirmedBody (r_id restaurant) (score bestMatch))),
                     insert_cache W
                       \<lparr>c_normalized_query = toLowerCase R candidate0,
                        c_country = country v,
                        c_city = city v,
                        c_provider = js ''google'',
                        c_place_id = place_id bestMatch,
                        c_name = name bestMatch,
                        c_address = address bestMatch,
                        c_lat = lat bestMatch,
                        c_lng = lng bestMatch,
                        c_score = score bestMatch\<rparr> s4))"

definition manual_confirm ::
    "world \<Rightarrow> ProcessMediaRequest \<Rightarrow> jsstring \<Rightarrow> ScoredPlace list \<Rightarrow> state \<Rightarrow> (exn + response) \<times> state" where
  "manual_confirm W v normalizedText topPlaces s =
     (Inr (Response 200 (NeedsConfirmationBody (map to_response_candidate topPlaces) normalizedText)),
      update_media W (media_id v) None StatusNeedsConfirmation normalizedText s)"

text \<open>The scoring step and the decision (\<^verbatim>\<open>bestMatch && bestMatch.score >= 0.75\<close>).\<close>

definition score_and_decide ::
    "runtime \<Rightarrow> world \<Rightarrow> ProcessMediaRequest \<Rightarrow> jsstring list \<Rightarrow> jsstring \<Rightarrow> PlaceSearchResult list
      \<Rightarrow> state \<Rightarrow> (exn + response) \<times> state" where
  "score_and_decide R W v candidates normalizedText allPlaces s =
     (let scoredPlaces = scorePlaceCandidates R candidates allPlaces;
          topPlaces = take 3 scoredPlaces
      in case topPlaces of
           [] \<Rightarrow> manual_confirm W v normalizedText topPlaces s
         | bestMatch # _ \<Rightarrow>
             if score bestMatch \<ge> 3 / 4
             then auto_confirm R W v candidates normalizedText bestMatch s
             else manual_confirm W v normalizedText topPlaces s)"

text \<open>The body of the \<^verbatim>\<open>try\<close> block: \<open>Inl\<close> is an exception that reaches the \<^verbatim>\<open>catch\<close>.\<close>

definition process_media ::
    "runtime \<Rightarrow> world \<Rightarrow> ProcessMediaRequest \<Rightarrow> state \<Rightarrow> (exn + response) \<times> state" where
  "process_media R W body s =
     (case ProcessMediaSchema_parse R body of
        Inl error \<Rightarrow> (Inl error, s)
      | Inr v \<Rightarrow>
          (case ocr_frames W (frame_urls v) s of
             (ocrResults, s1) \<Rightarrow>
               let allText = aggregate_text R ocrResults;
                   normalizedText = normalize_text allText;
                   candidates = extractPOICandidates R allText
               in if length candidates = 0 then
                    (Inr (Response 200 (NeedsConfirmationBody [] normalizedText)),
                     update_media W (media_id v) None StatusNeedsConfirmation normalizedText s1)
                  else
                    (case search_candidates W (take 3 candidates) (country v) (city v) s1 of
                       (allPlaces, s2) \<Rightarrow>
                         if length allPlaces = 0 then
                           (Inr (Response 200 (NeedsConfirmationBody [] normalizedText)),
                            update_media W (media_id v) None StatusNeedsConfirmation normalizedText s2)
                         else score_and_decide R W v candidates normalizedText allPlaces s2)))"

definition serve :: "runtime \<Rightarrow> world \<Rightarrow> request \<Rightarrow> state \<Rightarrow> response \<times> state" where
  "serve R W req s =
     (if req_method req \<noteq> js ''POST'' then (Response 405 (PlainText (js ''Method not allowed'')), s)
      else case process_media R W (req_body req) s of
             (Inr resp, s1) \<Rightarrow> (resp, s1)
           | (Inl error, s1) \<Rightarrow>
               (Response 500 (ErrorBody error),
                s1\<lparr>console := console s1 @ [ConsoleError (js ''Process media error:'') error]\<rparr>))"

section \<open>Observations of a run\<close>

text \<open>Kinds of outbound calls, to say which ones a run has made.\<close>

definition is_places_call :: "call \<Rightarrow> bool" where
  "is_places_call c \<longleftrightarrow> (case c of PlacesCall q \<Rightarrow> True | _ \<Rightarrow> False)"

definition is_restaurant_insert :: "call \<Rightarrow> bool" where
  "is_restaurant_insert c \<longleftrightarrow> (case c of RestaurantInsert row \<Rightarrow> True | _ \<Rightarrow> False)"

definition is_vision_call :: "call \<Rightarrow> bool" where
  "is_vision_call c \<longleftrightarrow> (case c of VisionCall url \<Rightarrow> True | _ \<Rightarrow> False)"

text \<open>
  The row that the confident branch inserts into \<^verbatim>\<open>restaurants\<close> (with the \<^verbatim>\<open>id\<close> that the
  store gives it), and the row that it inserts into \<^verbatim>\<open>place_cache\<close>.
\<close>

definition new_restaurant :: "world \<Rightarrow> ScoredPlace \<Rightarrow> jsstring option \<Rightarrow> restaurant_row" where
  "new_restaurant W bestMatch owner =
     \<lparr>r_id = new_restaurant_id W,
      r_name = name bestMatch,
      r_address = address bestMatch,
      r_lat = lat bestMatch,
      r_lng = lng bestMatch,
      r_place_provider = js ''google'',
      r_place_id = place_id bestMatch,
      r_tags = [js ''ai-analyzed''],
      r_created_by = owner\<rparr>"

definition new_cache_entry :: "runtime \<Rightarrow> ProcessMediaRequest \<Rightarrow> jsstring \<Rightarrow> ScoredPlace \<Rightarrow> cache_row" where
  "new_cache_entry R v candidate bestMatch =
     \<lparr>c_normalized_query = toLowerCase R candidate,
      c_country = country v,
      c_city = city v,
      c_provider = js ''google'',
      c_place_id = place_id bestMatch,
      c_name = name bestMatch,
      c_address = address bestMatch,
      c_lat = lat bestMatch,
      c_lng = lng bestMatch,
      c_score = score bestMatch\<rparr>"

text \<open>
  The values that the handler computes on the way, for a request that passes the
  validation: the texts of the frames and the state after the recognition, the candidates,
  the places found for the first three of them and the state after the searches, and
  the scored places.
\<close>

definition run_ocr :: "world \<Rightarrow> ProcessMediaRequest \<Rightarrow> state \<Rightarrow> OCRResult list" where
  "run_ocr W body s = fst (ocr_frames W (frame_urls body) s)"

definition run_state1 :: "world \<Rightarrow> ProcessMediaRequest \<Rightarrow> state \<Rightarrow> state" where
  "run_state1 W body s = snd (ocr_frames W (frame_urls body) s)"

definition run_text :: "runtime \<Rightarrow> world \<Rightarrow> ProcessMediaRequest \<Rightarrow> state \<Rightarrow> jsstring" where
  "run_text R W body s = normalize_text (aggregate_text R (run_ocr W body s))"

definition run_candidates :: "runtime \<Rightarrow> world \<Rightarrow> ProcessMediaRequest \<Rightarrow> state \<Rightarrow> jsstring list" where
  "run_candidates R W body s = extractPOICandidates R (aggregate_text R (run_ocr W body s))"

definition run_places :: "runtime \<Rightarrow> world \<Rightarrow> ProcessMediaRequest \<Rightarrow> state \<Rightarrow> PlaceSearchResult list" where
  "run_places R W body s =
     fst (search_candidates W (take 3 (run_candidates R W body s)) (country body) (city body)
            (run_state1 W body s))"

definition run_state2 :: "runtime \<Rightarrow> world \<Rightarrow> ProcessMediaRequest \<Rightarrow> state \<Rightarrow> state" where
  "run_state2 R W body s =
     snd (search_candidates W (take 3 (run_candidates R W body s)) (country body) (city body)
            (run_state1 W body s))"

definition run_scored :: "runtime \<Rightarrow> world \<Rightarrow> ProcessMediaRequest \<Rightarrow> state \<Rightarrow> ScoredPlace list" where
  "run_scored R W body s = scorePlaceCandidates R (run_candidates R W body s) (run_places R W body s)"

section \<open>Example inputs\<close>

text \<open>
  Five lines: a name in title case with a keyword, a hashtag with blanks around it, a
  line with a link, the first line again, and a name in title case without a keyword.
\<close>

definition example_text :: jsstring where
  "example_text =
     js ''Joe Pizza'' @ [0x0A] @ js '' #brunch  '' @ [0x0A] @ js ''see www.pizza.com'' @ [0x0A] @
     js ''Joe Pizza'' @ [0x0A] @ js ''Hello World''"

text \<open>
  Places. The one of the happy path: the name \<^verbatim>\<open>Joe's Pizza\<close>, the category
  \<^verbatim>\<open>restaurant\<close> and the rating 4.5, so both bonuses. One without categories and
  rating, named \<^verbatim>\<open>#abd\<close>. For the candidate \<^verbatim>\<open>#abcd\<close>: a place one edit away without
  bonus (\<^verbatim>\<open>#abcx\<close>, similarity 0.8), the same place under another identifier, and a
  place two edits away with both bonuses (\<^verbatim>\<open>#abxy\<close>, similarity 0.6).
\<close>

definition example_place :: PlaceSearchResult where
  "example_place =
     \<lparr>name = js ''Joe's Pizza'', address = js ''1 Main St'', lat = 1, lng = 2, place_id = js ''p1'',
      rating = Some (9 / 2), types = Some [js ''restaurant'']\<rparr>"

definition plain_place :: PlaceSearchResult where
  "plain_place =
     \<lparr>name = js ''#abd'', address = js ''2 Side St'', lat = 3, lng = 4, place_id = js ''p2'',
      rating = None, types = None\<rparr>"

definition near_place :: PlaceSearchResult where
  "near_place =
     \<lparr>name = js ''#abcx'', address = js ''3 High St'', lat = 5, lng = 6, place_id = js ''p4'',
      rating = None, types = None\<rparr>"

definition near_twin :: PlaceSearchResult where
  "near_twin = near_place\<lparr>place_id := js ''p5''\<rparr>"

definition far_place :: PlaceSearchResult where
  "far_place =
     \<lparr>name = js ''#abxy'', address = js ''4 Low St'', lat = 7, lng = 8, place_id = js ''p6'',
      rating = Some (9 / 2), types = Some [js ''restaurant'']\<rparr>"

text \<open>
  A world in which both keys are set, every frame reads \<^verbatim>\<open>#ABC\<close>, every search answers
  \<^verbatim>\<open>OK\<close> with the place named \<^verbatim>\<open>#abd\<close>, and the store applies every write; a store with
  one media row, in processing; a well-formed request for that row with one frame.
\<close>

definition example_world :: world where
  "example_world =
     \<lparr>FEATURE_USE_TESSERACT = None,
      GOOGLE_VISION_API_KEY = Some (js ''k1''),
      GOOGLE_MAPS_API_KEY = Some (js ''k2''),
      vision_fetch = (\<lambda>url. VisionOk (Some [\<lparr>description = Some (js ''#ABC''), annotation_confidence = None\<rparr>])),
      places_fetch = (\<lambda>q. PlacesOk (js ''OK'') [plain_place]),
      media_update_error = None,
      restaurant_insert_error = None,
      cache_insert_error = None,
      new_restaurant_id = js ''r1''\<rparr>"

definition example_media_id :: jsstring where
  "example_media_id = js ''123e4567-e89b-42d3-a456-426614174000''"

definition example_row :: media_row where
  "example_row =
     \<lparr>m_user_id = js ''u1'', m_restaurant_id = None, m_ocr_text = None, m_status = StatusProcessing\<rparr>"

definition example_state :: state where
  "example_state =
     \<lparr>media = [example_media_id \<mapsto> example_row],
      restaurants = [], place_cache = [], calls = [], console = []\<rparr>"

definition example_body :: ProcessMediaRequest where
  "example_body =
     \<lparr>media_id = example_media_id, frame_urls = [js ''https://x/1.jpg''],
      country = None, city = None\<rparr>"

definition example_request :: request where
  "example_request = \<lparr>req_method = js ''POST'', req_body = example_body\<rparr>"

text \<open>
  Three more worlds: the place search finds nothing (an \<^verbatim>\<open>ok\<close> response whose body has the
  status \<^verbatim>\<open>ZERO_RESULTS\<close>); the place search answers the query \<^verbatim>\<open>#xyz\<close> with HTTP status
  503 and every other query with the place \<^verbatim>\<open>#abd\<close>; the place search answers every
  query with HTTP status 503.
\<close>

definition zero_results_world :: world where
  "zero_results_world = example_world\<lparr>places_fetch := (\<lambda>q. PlacesOk (js ''ZERO_RESULTS'') [])\<rparr>"

definition flaky_world :: world where
  "flaky_world =
     example_world\<lparr>places_fetch := (\<lambda>q. if q = js ''#xyz'' then PlacesNotOk (js ''Service Unavailable'')
                                        else PlacesOk (js ''OK'') [plain_place])\<rparr>"

definition unavailable_world :: world where
  "unavailable_world = example_world\<lparr>places_fetch := (\<lambda>q. PlacesNotOk (js ''Service Unavailable''))\<rparr>"


definition low_score_place :: PlaceSearchResult where
  "low_score_place = plain_place\<lparr>name := js ''#axd''\<rparr>"


definition failing_store_world :: world where
  "failing_store_world = example_world\<lparr>media_update_error := Some (js ''connection lost'')\<rparr>"

definition two_candidates_world :: world where
  "two_candidates_world =
     example_world
       \<lparr>vision_fetch := (\<lambda>url. VisionOk (Some
           [\<lparr>description = Some (js ''#XYZ'' @ [0x0A] @ js ''#abd''), annotation_confidence = None\<rparr>])),
        places_fetch := (\<lambda>q. if q = js ''#xyz'' then PlacesOk (js ''ZERO_RESULTS'') []
                              else PlacesOk (js ''OK'') [plain_place])\<rparr>"


text \<open>
  A request with two frames for the same row, and two worlds for it: the first frame
  reads \<^verbatim>\<open>Hello,\<close> and the second \<^verbatim>\<open>World!\<close>; in the second world the store rejects
  the update of the media row as well.
\<close>

definition two_frames_body :: ProcessMediaRequest where
  "two_frames_body = example_body\<lparr>frame_urls := [js ''https://x/1.jpg'', js ''https://x/2.jpg'']\<rparr>"

definition two_frames_request :: request where
  "two_frames_request = \<lparr>req_method = js ''POST'', req_body = two_frames_body\<rparr>"

definition two_frames_world :: world where
  "two_frames_world =
     example_world
       \<lparr>vision_fetch := (\<lambda>url.
           if url = js ''https://x/1.jpg''
           then VisionOk (Some [\<lparr>description = Some (js ''Hello,''), annotation_confidence = None\<rparr>])
           else VisionOk (Some [\<lparr>description = Some (js ''World!''), annotation_confidence = None\<rparr>]))\<rparr>"

definition two_frames_failing_world :: world where
  "two_frames_failing_world = two_frames_world\<lparr>media_update_error := Some (js ''connection lost'')\<rparr>"

text \<open>
  Two malformed requests: a \<^verbatim>\<open>media_id\<close> that is no UUID, and a frame URL that is no URL.
\<close>

definition bad_id_request :: request where
  "bad_id_request = \<lparr>req_method = js ''POST'', req_body = example_body\<lparr>media_id := js ''not-a-uuid''\<rparr>\<rparr>"

definition bad_url_request :: request where
  "bad_url_request =
     \<lparr>req_method = js ''POST'', req_body = example_body\<lparr>frame_urls := [js ''https://x/1.jpg'', js ''frame 2'']\<rparr>\<rparr>"

text \<open>The text of two lines that a frame may hold.\<close>

definition example_ocr :: "OCRResult list" where
  "example_ocr = [\<lparr>result_text = js ''Hello World'' @ [0x0A] @ js ''#Brunch'', confidence = 1\<rparr>]"

section \<open>Properties of candidate extraction\<close>

lemma set_set_add_all: "set (set_add_all acc xs) = set acc \<union> set xs"
  by (induction xs arbitrary: acc) auto

lemma distinct_set_add_all: "distinct acc \<Longrightarrow> distinct (set_add_all acc xs)"
  by (induction xs arbitrary: acc) auto

lemma first_index_less: "a \<in> set pre \<Longrightarrow> first_index (pre @ ys) a < length pre"
  by (induction pre) auto

lemma first_index_fresh: "x \<notin> set pre \<Longrightarrow> first_index (pre @ x # xs) x = length pre"
  by (induction pre) auto

lemma sorted_set_add_all:
  "set acc = set pre \<Longrightarrow>
   sorted_wrt (\<lambda>a b. first_index (pre @ xs) a < first_index (pre @ xs) b) acc \<Longrightarrow>
   sorted_wrt (\<lambda>a b. first_index (pre @ xs) a < first_index (pre @ xs) b) (set_add_all acc xs)"
proof (induction xs arbitrary: acc pre)
  case Nil
  then show ?case by simp
next
  case (Cons x xs)
  have eq: "pre @ x # xs = (pre @ [x]) @ xs" by simp
  show ?case
  proof (cases "x \<in> set acc")
    case True
    then have "set acc = set (pre @ [x])" using Cons.prems(1) by auto
    from Cons.IH[OF this] Cons.prems(2) True show ?thesis
      unfolding eq by simp
  next
    case False
    then have fresh: "x \<notin> set pre" using Cons.prems(1) by simp
    have s: "set (acc @ [x]) = set (pre @ [x])" using Cons.prems(1) by simp
    have "sorted_wrt (\<lambda>a b. first_index (pre @ x # xs) a < first_index (pre @ x # xs) b) (acc @ [x])"
      using Cons.prems fresh
      by (auto simp: sorted_wrt_append first_index_fresh first_index_less)
    then have "sorted_wrt (\<lambda>a b. first_index ((pre @ [x]) @ xs) a < first_index ((pre @ [x]) @ xs) b) (acc @ [x])"
      by simp
    from Cons.IH[OF s this] False show ?thesis
      unfolding eq by simp
  qed
qed

lemma sorted_spread_new_Set:
  "sorted_wrt (\<lambda>a b. first_index xs a < first_index xs b) (spread_new_Set xs)"
  using sorted_set_add_all[of "[]" "[]" xs] by (simp add: spread_new_Set_def)

lemma first_index_filter:
  "P a \<Longrightarrow> P b \<Longrightarrow> 
   (first_index (filter P xs) a < first_index (filter P xs) b) = (first_index xs a < first_index xs b)"
  by (induction xs) auto

lemma sorted_wrt_cong_set:
  "(\<And>a b. a \<in> set xs \<Longrightarrow> b \<in> set xs \<Longrightarrow> P a b = Q a b) \<Longrightarrow> sorted_wrt P xs = sorted_wrt Q xs"
  by (induction xs) auto

text \<open>
  Claim C5. For every text, the list that \<open>extractPOICandidates\<close> returns has no entry
  that includes \<^verbatim>\<open>http\<close> or \<^verbatim>\<open>www\<close>, has no entry twice (entries compared as they
  are, case included), and its entries are lines of the text in the order in which they
  first occur there.
\<close>

theorem extractPOICandidates_no_links_distinct_ordered:
  "(\<forall>c \<in> set (extractPOICandidates R t).
       \<not> js_includes c (js ''http'') \<and> \<not> js_includes c (js ''www''))
   \<and> distinct (extractPOICandidates R t)
   \<and> set (extractPOICandidates R t) \<subseteq> set (text_lines t)
   \<and> sorted_wrt (\<lambda>a b. first_index (text_lines t) a < first_index (text_lines t) b)
        (extractPOICandidates R t)"
proof -
  let ?cs = "filter (is_candidate R) (text_lines t)"
  have e: "extractPOICandidates R t = spread_new_Set ?cs"
    by (simp add: extractPOICandidates_def)
  have s: "set (spread_new_Set ?cs) = set ?cs"
    by (simp add: spread_new_Set_def set_set_add_all)
  have 1: "\<forall>c \<in> set (extractPOICandidates R t).
       \<not> js_includes c (js ''http'') \<and> \<not> js_includes c (js ''www'')"
    unfolding e s by (simp add: is_candidate_def)
  have 2: "distinct (extractPOICandidates R t)"
    unfolding e by (simp add: spread_new_Set_def distinct_set_add_all)
  have 3: "set (extractPOICandidates R t) \<subseteq> set (text_lines t)"
    unfolding e s by auto
  have "sorted_wrt (\<lambda>a b. first_index (text_lines t) a < first_index (text_lines t) b) (spread_new_Set ?cs)
        = sorted_wrt (\<lambda>a b. first_index ?cs a < first_index ?cs b) (spread_new_Set ?cs)"
    by (rule sorted_wrt_cong_set) (simp add: s first_index_filter)
  then have 4: "sorted_wrt (\<lambda>a b. first_index (text_lines t) a < first_index (text_lines t) b)
        (extractPOICandidates R t)"
    unfolding e using sorted_spread_new_Set[of ?cs] by simp
  from 1 2 3 4 show ?thesis by blast
qed

theorem extractPOICandidates_no_links_distinct_ordered_witness:
  "extractPOICandidates ascii_runtime example_text = [js ''Joe Pizza'', js ''#brunch'', js ''Hello World'']
   \<and> \<not> js_includes (js ''#brunch'') (js ''http'')
   \<and> \<not> js_includes (js ''#brunch'') (js ''www'')
   \<and> distinct (extractPOICandidates ascii_runtime example_text)
   \<and> set (extractPOICandidates ascii_runtime example_text) \<subseteq> set (text_lines example_text)
   \<and> sorted_wrt
        (\<lambda>a b. first_index (text_lines example_text) a < first_index (text_lines example_text) b)
        (extractPOICandidates ascii_runtime example_text)"
proof -
  have e: "extractPOICandidates ascii_runtime example_text
             = [js ''Joe Pizza'', js ''#brunch'', js ''Hello World'']"
    by code_simp
  note t = extractPOICandidates_no_links_distinct_ordered[of ascii_runtime example_text]
  from t have "\<forall>c \<in> set (extractPOICandidates ascii_runtime example_text).
       \<not> js_includes c (js ''http'') \<and> \<not> js_includes c (js ''www'')"
    by (rule conjunct1)
  then have "\<not> js_includes (js ''#brunch'') (js ''http'') \<and> \<not> js_includes (js ''#brunch'') (js ''www'')"
    unfolding e by simp
  with e t show ?thesis by blast
qed

section \<open>Properties of the numbers\<close>

text \<open>
  The rounding keeps the order and the sign: what the proofs about the scores need.
\<close>

lemma round_half_even_bounds: "\<lfloor>r\<rfloor> \<le> round_half_even r \<and> round_half_even r \<le> \<lfloor>r\<rfloor> + 1"
  by (simp add: round_half_even_def)

lemma round_half_even_of_int [simp]: "round_half_even (of_int n) = n"
  by (simp add: round_half_even_def)

lemma round_half_even_mono:
  assumes "r \<le> r'"
  shows "round_half_even r \<le> round_half_even r'"
proof (cases "\<lfloor>r\<rfloor> = \<lfloor>r'\<rfloor>")
  case True
  with assms show ?thesis
    by (auto simp: round_half_even_def)
next
  case False
  with assms have "\<lfloor>r\<rfloor> < \<lfloor>r'\<rfloor>"
    using floor_mono[OF assms] by simp
  then have "\<lfloor>r\<rfloor> + 1 \<le> \<lfloor>r'\<rfloor>" by simp
  with round_half_even_bounds[of r] round_half_even_bounds[of r'] show ?thesis
    by linarith
qed

lemma binary_exponent_bounds:
  assumes "x > 0"
  shows "2 powi (binary_exponent x) \<le> x \<and> x < 2 powi (binary_exponent x + 1)"
proof -
  obtain p q where pq: "quotient_of x = (p, q)" by (cases "quotient_of x")
  then have q: "q > 0" and x: "x = of_int p / of_int q"
    using quotient_of_denom_pos quotient_of_div by auto
  with assms have p: "p > 0"
    by (simp add: zero_less_divide_iff)
  define bp where "bp = bitlen p"
  define bq where "bq = bitlen q"
  from bitlen_bounds[OF p] have p1: "(2::int) ^ nat (bp - 1) \<le> p" and p2: "p < 2 ^ nat bp"
    by (simp_all add: bp_def)
  from bitlen_bounds[OF q] have q1: "(2::int) ^ nat (bq - 1) \<le> q" and q2: "q < 2 ^ nat bq"
    by (simp_all add: bq_def)
  have bp1: "bp \<ge> 1" and bq1: "bq \<ge> 1"
    using p q by (auto simp: bp_def bq_def bitlen_alt_def)
  have P1: "(2::rat) powi (bp - 1) \<le> of_int p"
  proof -
    have "(of_int ((2::int) ^ nat (bp - 1)) :: rat) \<le> of_int p" using p1 by (simp only: of_int_le_iff)
    then show ?thesis using bp1 by (simp add: power_int_def)
  qed
  have P2: "(of_int p :: rat) < 2 powi bp"
  proof -
    have "(of_int p :: rat) < of_int ((2::int) ^ nat bp)" using p2 by (simp only: of_int_less_iff)
    then show ?thesis using bp1 by (simp add: power_int_def)
  qed
  have Q1: "(2::rat) powi (bq - 1) \<le> of_int q"
  proof -
    have "(of_int ((2::int) ^ nat (bq - 1)) :: rat) \<le> of_int q" using q1 by (simp only: of_int_le_iff)
    then show ?thesis using bq1 by (simp add: power_int_def)
  qed
  have Q2: "(of_int q :: rat) < 2 powi bq"
  proof -
    have "(of_int q :: rat) < of_int ((2::int) ^ nat bq)" using q2 by (simp only: of_int_less_iff)
    then show ?thesis using bq1 by (simp add: power_int_def)
  qed
  have qpos: "(0::rat) < of_int q" using q by simp
  have ppos: "(0::rat) < of_int p" using p by simp
  have lo: "(2::rat) powi (bp - bq - 1) < x"
  proof -
    have "(2::rat) powi (bp - bq - 1) = 2 powi (bp - 1) / 2 powi bq"
      by (simp add: power_int_diff)
    also have "\<dots> \<le> of_int p / 2 powi bq"
      using P1 by (simp add: divide_right_mono)
    also have "\<dots> < of_int p / of_int q"
      using Q2 qpos ppos by (simp add: divide_strict_left_mono)
    finally show ?thesis by (simp add: x)
  qed
  have hi: "x < (2::rat) powi (bp - bq + 1)"
  proof -
    have "x = of_int p / of_int q" by (rule x)
    also have "\<dots> \<le> of_int p / 2 powi (bq - 1)"
      using Q1 ppos by (intro frac_le) simp_all
    also have "\<dots> < 2 powi bp / 2 powi (bq - 1)"
      using P2 by (simp add: divide_strict_right_mono)
    also have "\<dots> = 2 powi (bp - (bq - 1))"
      by (rule power_int_diff[symmetric]) simp
    also have "\<dots> = 2 powi (bp - bq + 1)"
      by (rule arg_cong[where f = "\<lambda>n. 2 powi n"]) simp
    finally show ?thesis .
  qed
  show ?thesis
    using lo hi
    by (auto simp: binary_exponent_def pq bp_def[symmetric] bq_def[symmetric])
qed


lemma two_powi_mult: "(2::rat) powi a * 2 powi b = 2 powi (a + b)"
  by (simp add: power_int_add)

lemma scaled_bounds:
  assumes "x > 0"
  shows "2 ^ 52 \<le> x * 2 powi (52 - binary_exponent x) \<and> x * 2 powi (52 - binary_exponent x) < 2 ^ 53"
proof -
  let ?e = "binary_exponent x"
  from binary_exponent_bounds[OF assms] have lo: "2 powi ?e \<le> x" and hi: "x < 2 powi (?e + 1)"
    by auto
  have pos: "(0::rat) < 2 powi (52 - ?e)" by simp
  have "(2::rat) ^ 52 = 2 powi ?e * 2 powi (52 - ?e)"
    by (simp flip: power_int_add)
  also have "\<dots> \<le> x * 2 powi (52 - ?e)"
    using lo pos by (simp add: mult_right_mono)
  finally have 1: "2 ^ 52 \<le> x * 2 powi (52 - ?e)" .
  have "x * 2 powi (52 - ?e) < 2 powi (?e + 1) * 2 powi (52 - ?e)"
    using hi pos by (simp add: mult_strict_right_mono)
  also have "\<dots> = 2 ^ 53"
    by (simp flip: power_int_add)
  finally show ?thesis using 1 by simp
qed

lemma round_positive_bounds:
  assumes "x > 0"
  shows "2 powi (binary_exponent x) \<le> round_positive x
       \<and> round_positive x \<le> 2 powi (binary_exponent x + 1)"
proof -
  let ?e = "binary_exponent x"
  let ?s = "x * 2 powi (52 - ?e)"
  from scaled_bounds[OF assms] have "of_int (2 ^ 52) \<le> ?s" and "?s \<le> of_int (2 ^ 53)"
    by simp_all
  then have "round_half_even (of_int (2 ^ 52)) \<le> round_half_even ?s"
    and "round_half_even ?s \<le> round_half_even (of_int (2 ^ 53))"
    by (simp_all only: round_half_even_mono)
  then have a: "2 ^ 52 \<le> round_half_even ?s" and b: "round_half_even ?s \<le> 2 ^ 53"
    by (simp_all only: round_half_even_of_int)
  have pos: "(0::rat) < 2 powi (?e - 52)" by simp
  have "(2::rat) powi ?e = 2 powi 52 * 2 powi (?e - 52)"
    unfolding two_powi_mult by (rule arg_cong[where f = "\<lambda>n. 2 powi n"]) simp
  also have "\<dots> = 2 ^ 52 * 2 powi (?e - 52)"
    by simp
  also have "\<dots> \<le> of_int (round_half_even ?s) * 2 powi (?e - 52)"
  proof -
    have "(2::rat) ^ 52 \<le> of_int (round_half_even ?s)"
      using a by (metis of_int_le_iff of_int_numeral of_int_power)
    then show ?thesis using pos by (simp add: mult_right_mono)
  qed
  finally have 1: "2 powi ?e \<le> round_positive x" by (simp add: round_positive_def)
  have "of_int (round_half_even ?s) * 2 powi (?e - 52) \<le> (2::rat) ^ 53 * 2 powi (?e - 52)"
  proof -
    have "(of_int (round_half_even ?s) :: rat) \<le> 2 ^ 53"
      using b by (metis of_int_le_iff of_int_numeral of_int_power)
    then show ?thesis using pos by (simp add: mult_right_mono)
  qed
  also have "\<dots> = 2 powi 53 * 2 powi (?e - 52)"
    by simp
  also have "\<dots> = 2 powi (?e + 1)"
    unfolding two_powi_mult by (rule arg_cong[where f = "\<lambda>n. 2 powi n"]) simp
  finally have 2: "round_positive x \<le> 2 powi (?e + 1)" by (simp add: round_positive_def)
  from 1 2 show ?thesis ..
qed

lemma round_positive_pos: "x > 0 \<Longrightarrow> round_positive x > 0"
  using round_positive_bounds[of x] zero_less_power_int[of "2::rat" "binary_exponent x"]
  by linarith



lemma to_double_pos: "x > 0 \<Longrightarrow> to_double x > 0"
  by (simp add: to_double_def round_positive_pos)

lemma to_double_neg: "x < 0 \<Longrightarrow> to_double x < 0"
  using round_positive_pos[of "- x"] by (simp add: to_double_def)

lemma to_double_zero [simp]: "to_double 0 = 0"
  by (simp add: to_double_def)


lemma to_double_sign: "to_double x \<le> 0 \<longleftrightarrow> x \<le> 0"
proof (cases x "0::rat" rule: linorder_cases)
  case less
  then show ?thesis using to_double_neg[of x] by simp
next
  case equal
  then show ?thesis by simp
next
  case greater
  then show ?thesis using to_double_pos[of x] by simp
qed

section \<open>Properties of the scorer\<close>






lemma insert_sorted_insort_key:
  fixes f :: "'a \<Rightarrow> rat"
  shows "insert_sorted (\<lambda>a b. num_sub (f b) (f a)) x ys = insort_key (\<lambda>p. - f p) x ys"
  by (induction ys) (auto simp: num_sub_def to_double_sign)

lemma array_sort_sort_key:
  fixes f :: "'a \<Rightarrow> rat"
  shows "array_sort (\<lambda>a b. num_sub (f b) (f a)) xs = sort_key (\<lambda>p. - f p) xs"
  by (induction xs) (auto simp: array_sort_def sort_key_def insert_sorted_insort_key)

lemma scorePlaceCandidates_sort_key:
  "scorePlaceCandidates R candidates places =
     sort_key (\<lambda>p. - score p) (map (score_place R candidates) places)"
  by (simp add: scorePlaceCandidates_def array_sort_sort_key)

text \<open>
  Claim C9. For every candidate list and place list, the list that
  \<open>scorePlaceCandidates\<close> returns is in non-increasing order of score, and the places
  of any one score are in the order in which the input has them; the list holds the
  scored input places, each as often as the input.
\<close>

theorem scorePlaceCandidates_sorted_stable:
  "sorted_wrt (\<lambda>a b. score a \<ge> score b) (scorePlaceCandidates R candidates places)
   \<and> (\<forall>k. filter (\<lambda>p. score p = k) (scorePlaceCandidates R candidates places)
          = filter (\<lambda>p. score p = k) (map (score_place R candidates) places))
   \<and> mset (scorePlaceCandidates R candidates places) = mset (map (score_place R candidates) places)"
proof (intro conjI allI)
  have "sorted (map (\<lambda>p. - score p) (sort_key (\<lambda>p. - score p) (map (score_place R candidates) places)))"
    by (rule sorted_sort_key)
  then show "sorted_wrt (\<lambda>a b. score a \<ge> score b) (scorePlaceCandidates R candidates places)"
    by (simp add: scorePlaceCandidates_sort_key sorted_map)
next
  fix k
  have "filter (\<lambda>p. - score p = - k) (sort_key (\<lambda>p. - score p) (map (score_place R candidates) places))
        = filter (\<lambda>p. - score p = - k) (map (score_place R candidates) places)"
    by (rule sort_key_stable)
  then show "filter (\<lambda>p. score p = k) (scorePlaceCandidates R candidates places)
          = filter (\<lambda>p. score p = k) (map (score_place R candidates) places)"
    by (simp add: scorePlaceCandidates_sort_key)
next
  show "mset (scorePlaceCandidates R candidates places) = mset (map (score_place R candidates) places)"
    by (simp add: scorePlaceCandidates_sort_key)
qed

lemma score_step_eq:
  "score_step R place m c = max m (add_bonuses place (calculateSimilarity R c (name place)))"
  by (simp add: score_step_def add_bonuses_def Let_def)






lemma score_of_score_place: "score (score_place R candidates place) = foldl (score_step R place) 0 candidates"
  by (simp add: score_place_def PlaceSearchResult.extend_def ScoredPlace.fields_def)



lemma score_place_empty_candidates: "score (score_place R [] place) = 0"
  by (simp add: score_of_score_place)


section \<open>Properties of the place search\<close>

text \<open>
  Claim C7, as amended. For every query for which the provider is called (the key is
  set and the query can be encoded): when the provider answers with a successful HTTP
  response whose body has a status other than \<^verbatim>\<open>OK\<close>, \<open>searchPlaces\<close> returns the empty
  list, throws nothing and logs one warning, and the loop of the handler goes on to the
  remaining candidates with no place from this one; when the provider answers with an
  HTTP response that is not successful, \<open>searchPlaces\<close> throws \<^verbatim>\<open>Places API error\<close> to
  its caller, and the loop of the handler catches it, logs it as an error and goes on to
  the remaining candidates with no place from this one.
\<close>

theorem searchPlaces_provider_status:
  assumes "\<not> falsy (GOOGLE_MAPS_API_KEY W)"
    and "wellFormed (build_search_query query cty)"
  shows "(places_fetch W (build_search_query query cty) = PlacesOk status results \<and> status \<noteq> js ''OK'' \<longrightarrow>
           searchPlaces W query cntry cty s =
             (Inr [],
              s\<lparr>calls := calls s @ [PlacesCall (build_search_query query cty)],
                console := console s @ [ConsoleWarn (js ''Places API returned status: '' @ status)]\<rparr>)
           \<and> search_candidates W (query # rest) cntry cty s =
               search_candidates W rest cntry cty
                 (s\<lparr>calls := calls s @ [PlacesCall (build_search_query query cty)],
                    console := console s @ [ConsoleWarn (js ''Places API returned status: '' @ status)]\<rparr>))
       \<and> (places_fetch W (build_search_query query cty) = PlacesNotOk statusText \<longrightarrow>
           searchPlaces W query cntry cty s =
             (Inl (Error (js ''Places API error: '' @ statusText)),
              s\<lparr>calls := calls s @ [PlacesCall (build_search_query query cty)]\<rparr>)
           \<and> search_candidates W (query # rest) cntry cty s =
               search_candidates W rest cntry cty
                 (s\<lparr>calls := calls s @ [PlacesCall (build_search_query query cty)],
                    console := console s @
                      [ConsoleError (js ''Place search failed for candidate '' @ [0x22] @ query @ [0x22] @ js '':'')
                         (Error (js ''Places API error: '' @ statusText))]\<rparr>))"
proof (intro conjI impI)
  assume a: "places_fetch W (build_search_query query cty) = PlacesOk status results \<and> status \<noteq> js ''OK''"
  show sp: "searchPlaces W query cntry cty s =
             (Inr [],
              s\<lparr>calls := calls s @ [PlacesCall (build_search_query query cty)],
                console := console s @ [ConsoleWarn (js ''Places API returned status: '' @ status)]\<rparr>)"
    using assms a by (simp add: searchPlaces_def Let_def)
  show "search_candidates W (query # rest) cntry cty s =
               search_candidates W rest cntry cty
                 (s\<lparr>calls := calls s @ [PlacesCall (build_search_query query cty)],
                    console := console s @ [ConsoleWarn (js ''Places API returned status: '' @ status)]\<rparr>)"
    by (simp add: sp split: prod.splits)
next
  assume b: "places_fetch W (build_search_query query cty) = PlacesNotOk statusText"
  show sp: "searchPlaces W query cntry cty s =
             (Inl (Error (js ''Places API error: '' @ statusText)),
              s\<lparr>calls := calls s @ [PlacesCall (build_search_query query cty)]\<rparr>)"
    using assms b by (simp add: searchPlaces_def Let_def)
  show "search_candidates W (query # rest) cntry cty s =
               search_candidates W rest cntry cty
                 (s\<lparr>calls := calls s @ [PlacesCall (build_search_query query cty)],
                    console := console s @
                      [ConsoleError (js ''Place search failed for candidate '' @ [0x22] @ query @ [0x22] @ js '':'')
                         (Error (js ''Places API error: '' @ statusText))]\<rparr>)"
    by (simp add: sp)
qed

theorem searchPlaces_provider_status_witness:
  "\<not> falsy (GOOGLE_MAPS_API_KEY zero_results_world)
   \<and> wellFormed (build_search_query (js ''#xyz'') None)
   \<and> places_fetch zero_results_world (build_search_query (js ''#xyz'') None) = PlacesOk (js ''ZERO_RESULTS'') []
   \<and> js ''ZERO_RESULTS'' \<noteq> js ''OK''
   \<and> searchPlaces zero_results_world (js ''#xyz'') None None example_state =
       (Inr [],
        example_state\<lparr>calls := calls example_state @ [PlacesCall (build_search_query (js ''#xyz'') None)],
          console := console example_state @
            [ConsoleWarn (js ''Places API returned status: '' @ js ''ZERO_RESULTS'')]\<rparr>)
   \<and> \<not> falsy (GOOGLE_MAPS_API_KEY flaky_world)
   \<and> places_fetch flaky_world (build_search_query (js ''#xyz'') None)
       = PlacesNotOk (js ''Service Unavailable'')
   \<and> searchPlaces flaky_world (js ''#xyz'') None None example_state =
       (Inl (Error (js ''Places API error: '' @ js ''Service Unavailable'')),
        example_state\<lparr>calls := calls example_state @ [PlacesCall (build_search_query (js ''#xyz'') None)]\<rparr>)
   \<and> search_candidates flaky_world [js ''#xyz'', js ''#abd''] None None example_state =
       search_candidates flaky_world [js ''#abd''] None None
         (example_state\<lparr>calls := calls example_state @ [PlacesCall (build_search_query (js ''#xyz'') None)],
            console := console example_state @
              [ConsoleError (js ''Place search failed for candidate '' @ [0x22] @ js ''#xyz'' @ [0x22] @ js '':'')
                 (Error (js ''Places API error: '' @ js ''Service Unavailable''))]\<rparr>)
   \<and> fst (search_candidates flaky_world [js ''#xyz'', js ''#abd''] None None example_state) = [plain_place]
   \<and> calls (snd (search_candidates flaky_world [js ''#xyz'', js ''#abd''] None None example_state))
       = [PlacesCall (js ''#xyz''), PlacesCall (js ''#abd'')]"
proof -
  have k1: "\<not> falsy (GOOGLE_MAPS_API_KEY zero_results_world)" by code_simp
  have k2: "\<not> falsy (GOOGLE_MAPS_API_KEY flaky_world)" by code_simp
  have wf: "wellFormed (build_search_query (js ''#xyz'') None)" by code_simp
  have f1: "places_fetch zero_results_world (build_search_query (js ''#xyz'') None)
              = PlacesOk (js ''ZERO_RESULTS'') []"
    by (simp add: zero_results_world_def)
  have f2: "places_fetch flaky_world (build_search_query (js ''#xyz'') None)
              = PlacesNotOk (js ''Service Unavailable'')"
    by (simp add: flaky_world_def build_search_query_def)
  have ne: "js ''ZERO_RESULTS'' \<noteq> js ''OK''" by code_simp
  note t1 = searchPlaces_provider_status[where cntry = None and s = example_state,
              OF k1 wf, THEN conjunct1, THEN mp, OF conjI[OF f1 ne], THEN conjunct1]
  note t2 = searchPlaces_provider_status[where cntry = None and s = example_state and rest = "[js ''#abd'']",
              OF k2 wf, THEN conjunct2, THEN mp, OF f2]
  from t2 have r2: "searchPlaces flaky_world (js ''#xyz'') None None example_state =
       (Inl (Error (js ''Places API error: '' @ js ''Service Unavailable'')),
        example_state\<lparr>calls := calls example_state @ [PlacesCall (build_search_query (js ''#xyz'') None)]\<rparr>)"
    by (rule conjunct1)
  from t2 have r3: "search_candidates flaky_world [js ''#xyz'', js ''#abd''] None None example_state =
       search_candidates flaky_world [js ''#abd''] None None
         (example_state\<lparr>calls := calls example_state @ [PlacesCall (build_search_query (js ''#xyz'') None)],
            console := console example_state @
              [ConsoleError (js ''Place search failed for candidate '' @ [0x22] @ js ''#xyz'' @ [0x22] @ js '':'')
                 (Error (js ''Places API error: '' @ js ''Service Unavailable''))]\<rparr>)"
    by (rule conjunct2)
  have r4: "fst (search_candidates flaky_world [js ''#xyz'', js ''#abd''] None None example_state) = [plain_place]"
    by code_simp
  have r5: "calls (snd (search_candidates flaky_world [js ''#xyz'', js ''#abd''] None None example_state))
       = [PlacesCall (js ''#xyz''), PlacesCall (js ''#abd'')]"
    by code_simp
  show ?thesis
    by (intro conjI) (fact k1 wf f1 ne t1 k2 f2 r2 r3 r4 r5)+
qed

text \<open>
  Claim C7 as stated fails when the provider answers with an HTTP status that is not a
  success: \<open>searchPlaces\<close> throws to its caller.
\<close>

theorem searchPlaces_http_error_counterexample:
  "places_fetch unavailable_world (js ''#abc'') = PlacesNotOk (js ''Service Unavailable'')
   \<and> fst (searchPlaces unavailable_world (js ''#abc'') None None example_state)
       = Inl (Error (js ''Places API error: Service Unavailable''))"
  by code_simp

section \<open>Properties of the handler\<close>

lemma performOCRWithVision_effects:
  assumes "performOCRWithVision W url s = (r, s1)"
  shows "media s1 = media s \<and> restaurants s1 = restaurants s \<and> place_cache s1 = place_cache s
         \<and> (\<exists>cs. calls s1 = calls s @ cs \<and> list_all is_vision_call cs)"
  using assms
  by (auto simp: performOCRWithVision_def Let_def is_vision_call_def
           split: if_splits vision_reply.splits option.splits list.splits)

lemma performOCRWithTesseract_effects:
  assumes "performOCRWithTesseract W url s = (r, s1)"
  shows "media s1 = media s \<and> restaurants s1 = restaurants s \<and> place_cache s1 = place_cache s
         \<and> (\<exists>cs. calls s1 = calls s @ cs \<and> list_all is_vision_call cs)"
  using assms by (auto simp: performOCRWithTesseract_def)

lemma ocr_frames_effects:
  "ocr_frames W urls s = (results, s1) \<Longrightarrow>
     media s1 = media s \<and> restaurants s1 = restaurants s \<and> place_cache s1 = place_cache s
     \<and> (\<exists>cs. calls s1 = calls s @ cs \<and> list_all is_vision_call cs)"
proof (induction urls arbitrary: s results s1)
  case Nil
  then show ?case by simp
next
  case (Cons url urls)
  obtain r sa where step: "(if FEATURE_USE_TESSERACT W = Some (js ''true'')
            then performOCRWithTesseract W url s
            else performOCRWithVision W url s) = (r, sa)"
    by (cases "(if FEATURE_USE_TESSERACT W = Some (js ''true'')
            then performOCRWithTesseract W url s
            else performOCRWithVision W url s)") auto
  then have a: "media sa = media s \<and> restaurants sa = restaurants s \<and> place_cache sa = place_cache s
         \<and> (\<exists>cs. calls sa = calls s @ cs \<and> list_all is_vision_call cs)"
    using performOCRWithVision_effects performOCRWithTesseract_effects
    by (auto split: if_splits)
  show ?case
  proof (cases r)
    case (Inr result)
    obtain rs sb where rest: "ocr_frames W urls sa = (rs, sb)" by (cases "ocr_frames W urls sa") auto
    with Cons.prems step Inr have "s1 = sb" by simp
    with Cons.IH[OF rest] a show ?thesis by auto
  next
    case (Inl e)
    let ?sa = "sa\<lparr>console := console sa @ [ConsoleError (js ''OCR failed for frame '' @ url @ js '':'') e]\<rparr>"
    obtain rs sb where rest: "ocr_frames W urls ?sa = (rs, sb)" by (cases "ocr_frames W urls ?sa") auto
    with Cons.prems step Inl have "s1 = sb" by simp
    with Cons.IH[OF rest] a show ?thesis by auto
  qed
qed

lemma update_media_effects:
  "restaurants (update_media W mid rid st txt s) = restaurants s
   \<and> place_cache (update_media W mid rid st txt s) = place_cache s
   \<and> calls (update_media W mid rid st txt s) = calls s @ [MediaUpdate mid rid st txt]
   \<and> console (update_media W mid rid st txt s) = console s"
  by (auto simp: update_media_def Let_def split: option.splits)

lemma update_media_applied:
  "media_update_error W = None \<Longrightarrow> media s mid = Some row \<Longrightarrow>
   media (update_media W mid rid st txt s) mid =
     Some (row\<lparr>m_restaurant_id := (case rid of None \<Rightarrow> m_restaurant_id row | Some r \<Rightarrow> Some r),
               m_status := st, m_ocr_text := Some txt\<rparr>)"
  by (simp add: update_media_def Let_def)

lemma update_media_rejected:
  "media_update_error W = Some msg \<Longrightarrow> media (update_media W mid rid st txt s) = media s"
  by (simp add: update_media_def Let_def)

lemma extractPOICandidates_empty_text: "extractPOICandidates R [] = []"
  by (simp add: extractPOICandidates_def text_lines_def trim_def spread_new_Set_def)

lemma malformed_request_rejected:
  assumes "\<not> (is_uuid R (media_id body) \<and> list_all (is_url R) (frame_urls body))"
  shows "serve R W \<lparr>req_method = js ''POST'', req_body = body\<rparr> s =
           (Response 500 (ErrorBody ZodError),
            s\<lparr>console := console s @ [ConsoleError (js ''Process media error:'') ZodError]\<rparr>)"
  using assms by (auto simp: serve_def process_media_def ProcessMediaSchema_parse_def)

lemma searchPlaces_effects:
  assumes "searchPlaces W query cntry cty s = (r, s1)"
  shows "media s1 = media s \<and> restaurants s1 = restaurants s \<and> place_cache s1 = place_cache s
         \<and> filter is_restaurant_insert (calls s1) = filter is_restaurant_insert (calls s)"
  using assms
  by (auto simp: searchPlaces_def Let_def is_restaurant_insert_def
           split: if_splits places_reply.splits)

lemma search_candidates_effects:
  "search_candidates W cands cntry cty s = (places, s1) \<Longrightarrow>
     media s1 = media s \<and> restaurants s1 = restaurants s \<and> place_cache s1 = place_cache s
     \<and> filter is_restaurant_insert (calls s1) = filter is_restaurant_insert (calls s)"
proof (induction cands arbitrary: s places s1)
  case Nil
  then show ?case by simp
next
  case (Cons c cands)
  obtain r sa where step: "searchPlaces W c cntry cty s = (r, sa)"
    by (cases "searchPlaces W c cntry cty s") auto
  note a = searchPlaces_effects[OF step]
  show ?case
  proof (cases r)
    case (Inr ps)
    obtain rs sb where rest: "search_candidates W cands cntry cty sa = (rs, sb)"
      by (cases "search_candidates W cands cntry cty sa") auto
    with Cons.prems step Inr have "s1 = sb" by simp
    with Cons.IH[OF rest] a show ?thesis by auto
  next
    case (Inl e)
    let ?sa = "sa\<lparr>console := console sa @
                 [ConsoleError (js ''Place search failed for candidate '' @ [0x22] @ c @ [0x22] @ js '':'') e]\<rparr>"
    from Cons.prems step Inl have rest: "search_candidates W cands cntry cty ?sa = (places, s1)" by simp
    from Cons.IH[OF rest] a show ?thesis by auto
  qed
qed


text \<open>The run up to the scoring step.\<close>

lemma serve_scoring_step:
  assumes "is_uuid R (media_id body)" and "list_all (is_url R) (frame_urls body)"
    and "ocr_frames W (frame_urls body) s = (ocrResults, s1)"
    and "extractPOICandidates R (aggregate_text R ocrResults) = candidates" and "candidates \<noteq> []"
    and "search_candidates W (take 3 candidates) (country body) (city body) s1 = (allPlaces, s2)"
    and "allPlaces \<noteq> []"
  shows "process_media R W body s =
           score_and_decide R W body candidates (normalize_text (aggregate_text R ocrResults)) allPlaces s2"
proof -
  from assms(1,2) have p: "ProcessMediaSchema_parse R body = Inr body"
    by (simp add: ProcessMediaSchema_parse_def)
  show ?thesis
    using assms(5,7) by (simp add: process_media_def p assms(3,4,6) Let_def)
qed

lemma insert_cache_effects:
  "media (insert_cache W row s) = media s \<and> restaurants (insert_cache W row s) = restaurants s
   \<and> calls (insert_cache W row s) = calls s @ [CacheInsert row]
   \<and> (cache_insert_error W = None \<longrightarrow> place_cache (insert_cache W row s) = place_cache s @ [row])"
  by (auto simp: insert_cache_def Let_def split: option.splits)

lemma auto_confirm_ok:
  assumes "restaurant_insert_error W = None"
  shows "auto_confirm R W v (c0 # cs) txt bestMatch s =
     (Inr (Response 200 (ConfirmedBody (new_restaurant_id W) (score bestMatch))),
      insert_cache W (new_cache_entry R v c0 bestMatch)
        (update_media W (media_id v) (Some (new_restaurant_id W)) StatusDone txt
           (s\<lparr>calls := calls s @ [MediaSelect (media_id v),
                   RestaurantInsert (new_restaurant W bestMatch (map_option m_user_id (media s (media_id v))))],
              restaurants := restaurants s @
                   [new_restaurant W bestMatch (map_option m_user_id (media s (media_id v)))]\<rparr>)))"
  using assms by (simp add: auto_confirm_def Let_def new_restaurant_def new_cache_entry_def)


lemma score_and_decide_cases:
  assumes "scorePlaceCandidates R candidates allPlaces = bestMatch # others"
  shows "score_and_decide R W v candidates txt allPlaces s =
     (if score bestMatch \<ge> 3 / 4 then auto_confirm R W v candidates txt bestMatch s
      else manual_confirm W v txt (take 3 (bestMatch # others)) s)"
  using assms by (simp add: score_and_decide_def Let_def)


lemma matches_Seq_Zero: "\<not> matches (Seq Zero r) cs"
  by (induction cs) auto

lemma isTitleCase_first_upper:
  assumes "isTitleCase line"
  shows "line \<noteq> [] \<and> isUpperAZ (hd line)"
proof (cases line)
  case Nil
  with assms show ?thesis by (simp add: isTitleCase_def titleCaseRegex_def Plus_def)
next
  case (Cons c cs)
  show ?thesis
  proof (rule ccontr)
    assume "\<not> (line \<noteq> [] \<and> isUpperAZ (hd line))"
    then have "\<not> isUpperAZ c" by (simp add: Cons)
    then have "matches titleCaseRegex (c # cs) = matches (Seq Zero (Seq (Plus (Cls isLowerAZ))
       (Star (Seq (Plus (Cls isWhiteSpace)) (Seq (Cls isUpperAZ) (Plus (Cls isLowerAZ))))))) cs"
      by (simp add: titleCaseRegex_def)
    with assms show False by (simp add: isTitleCase_def Cons matches_Seq_Zero)
  qed
qed

lemma set_split_str_all: "\<forall>l \<in> set (split_str sep t). set l \<subseteq> set t"
  by (induction t) (auto split: list.splits)

lemma set_split_str: "l \<in> set (split_str sep t) \<Longrightarrow> set l \<subseteq> set t"
  using set_split_str_all by blast

lemma set_trim: "set (trim str) \<subseteq> set str"
  by (auto simp: trim_def dest!: set_dropWhileD)

lemma set_text_lines: "line \<in> set (text_lines t) \<Longrightarrow> set line \<subseteq> set t"
  using set_split_str set_trim by (fastforce simp: text_lines_def)

lemma ascii_lower_no_upper: "c \<in> set (ascii_lower str) \<Longrightarrow> \<not> isUpperAZ c"
proof -
  have "\<not> isUpperAZ (d + 0x20)" if "isUpperAZ d" for d :: jschar
    using that unfolding isUpperAZ_def by unat_arith
  then show "c \<in> set (ascii_lower str) \<Longrightarrow> \<not> isUpperAZ c"
    by (auto simp: ascii_lower_def)
qed

text \<open>
  Claim C10. When no string that \<^verbatim>\<open>toLowerCase\<close> returns holds a letter \<^verbatim>\<open>A\<close> to \<^verbatim>\<open>Z\<close>,
  no line of the aggregated text of a run matches the title-case pattern, and every
  candidate extracted from it contains a keyword (lower-cased on both sides) or \<^verbatim>\<open>@\<close>
  or \<^verbatim>\<open>#\<close>.
\<close>

theorem pipeline_candidates_never_title_case:
  assumes "\<forall>str. \<forall>c \<in> set (toLowerCase R str). \<not> isUpperAZ c"
  shows "(\<forall>line \<in> set (text_lines (aggregate_text R ocrResults)). \<not> isTitleCase line)
       \<and> (\<forall>cand \<in> set (extractPOICandidates R (aggregate_text R ocrResults)).
             hasFoodKeyword R cand \<or> hasSocialIndicator cand)"
proof -
  let ?t = "aggregate_text R ocrResults"
  have low: "\<not> isUpperAZ c" if "c \<in> set ?t" for c
    using assms that by (auto simp: aggregate_text_def)
  have nt: "\<not> isTitleCase line" if "line \<in> set (text_lines ?t)" for line
  proof
    assume "isTitleCase line"
    then have "line \<noteq> []" and "isUpperAZ (hd line)"
      using isTitleCase_first_upper by auto
    moreover have "hd line \<in> set ?t"
      using set_text_lines[OF that] \<open>line \<noteq> []\<close> by auto
    ultimately show False using low by blast
  qed
  have "set (extractPOICandidates R ?t) = set (filter (is_candidate R) (text_lines ?t))"
    by (simp add: extractPOICandidates_def spread_new_Set_def set_set_add_all)
  then have "hasFoodKeyword R cand \<or> hasSocialIndicator cand"
    if "cand \<in> set (extractPOICandidates R ?t)" for cand
    using that nt by (auto simp: is_candidate_def)
  with nt show ?thesis by blast
qed

section \<open>The handler in terms of the values of a run\<close>

lemma run_collapse:
  "ocr_frames W (frame_urls body) s = (run_ocr W body s, run_state1 W body s)"
  "extractPOICandidates R (aggregate_text R (run_ocr W body s)) = run_candidates R W body s"
  "search_candidates W (take 3 (run_candidates R W body s)) (country body) (city body) (run_state1 W body s)
     = (run_places R W body s, run_state2 R W body s)"
  "scorePlaceCandidates R (run_candidates R W body s) (run_places R W body s) = run_scored R W body s"
  "normalize_text (aggregate_text R (run_ocr W body s)) = run_text R W body s"
  by (simp_all add: run_ocr_def run_state1_def run_candidates_def run_places_def run_state2_def
        run_scored_def run_text_def)

lemma run_state_tables:
  "media (run_state1 W body s) = media s"
  "media (run_state2 R W body s) = media s"
  "restaurants (run_state2 R W body s) = restaurants s"
  "place_cache (run_state2 R W body s) = place_cache s"
  using ocr_frames_effects[OF run_collapse(1)] search_candidates_effects[OF run_collapse(3)]
  by simp_all

lemma serve_no_candidates:
  assumes "is_uuid R (media_id body)" and "list_all (is_url R) (frame_urls body)"
    and "run_candidates R W body s = []"
  shows "serve R W \<lparr>req_method = js ''POST'', req_body = body\<rparr> s =
           (Response 200 (NeedsConfirmationBody [] (run_text R W body s)),
            update_media W (media_id body) None StatusNeedsConfirmation (run_text R W body s)
              (run_state1 W body s))"
proof -
  from assms(1,2) have p: "ProcessMediaSchema_parse R body = Inr body"
    by (simp add: ProcessMediaSchema_parse_def)
  show ?thesis
    using assms(3)
    by (simp add: serve_def process_media_def p run_collapse(1) run_collapse(2) run_collapse(5) Let_def)
qed

lemma serve_no_places:
  assumes "is_uuid R (media_id body)" and "list_all (is_url R) (frame_urls body)"
    and "run_candidates R W body s \<noteq> []" and "run_places R W body s = []"
  shows "serve R W \<lparr>req_method = js ''POST'', req_body = body\<rparr> s =
           (Response 200 (NeedsConfirmationBody [] (run_text R W body s)),
            update_media W (media_id body) None StatusNeedsConfirmation (run_text R W body s)
              (run_state2 R W body s))"
proof -
  from assms(1,2) have p: "ProcessMediaSchema_parse R body = Inr body"
    by (simp add: ProcessMediaSchema_parse_def)
  show ?thesis
    using assms(3,4)
    by (simp add: serve_def process_media_def p run_collapse(1) run_collapse(2) run_collapse(3)
          run_collapse(5) Let_def)
qed

lemma serve_confirmed:
  assumes "is_uuid R (media_id body)" and "list_all (is_url R) (frame_urls body)"
    and "run_candidates R W body s = c0 # cs" and "run_places R W body s \<noteq> []"
    and "run_scored R W body s = best # others" and "score best \<ge> 3 / 4"
    and "restaurant_insert_error W = None"
  shows "serve R W \<lparr>req_method = js ''POST'', req_body = body\<rparr> s =
     (Response 200 (ConfirmedBody (new_restaurant_id W) (score best)),
      insert_cache W (new_cache_entry R body c0 best)
        (update_media W (media_id body) (Some (new_restaurant_id W)) StatusDone (run_text R W body s)
           ((run_state2 R W body s)
              \<lparr>calls := calls (run_state2 R W body s) @ [MediaSelect (media_id body),
                   RestaurantInsert (new_restaurant W best (map_option m_user_id (media s (media_id body))))],
               restaurants := restaurants s @
                   [new_restaurant W best (map_option m_user_id (media s (media_id body)))]\<rparr>)))"
proof -
  have ne: "run_candidates R W body s \<noteq> []" using assms(3) by simp
  have sc: "scorePlaceCandidates R (run_candidates R W body s) (run_places R W body s) = best # others"
    using assms(5) by (simp add: run_collapse(4))
  note step = serve_scoring_step[OF assms(1,2) run_collapse(1) run_collapse(2) ne run_collapse(3) assms(4)]
  have sc': "scorePlaceCandidates R (c0 # cs) (run_places R W body s) = best # others"
    using sc assms(3) by simp
  note dec = score_and_decide_cases[OF sc']
  show ?thesis
    using assms(6)
    by (simp add: serve_def step dec assms(3) auto_confirm_ok[OF assms(7)] run_collapse(5)
          run_state_tables)
qed


section \<open>Runs on the example inputs\<close>

text \<open>
  The values of the scorer on the example places and of the runs of the example
  requests in the example worlds, each computed once; the witnesses and counterexamples
  below are put together from them.
\<close>

lemmas extract_simps =
  extractPOICandidates_def text_lines_def trim_def is_candidate_def hasFoodKeyword_def
  FOOD_KEYWORDS_def js_def ascii_runtime_def ascii_lower_def isUpperAZ_def isLowerAZ_def
  isWhiteSpace_def js_includes_def sublist_code hasSocialIndicator_def isTitleCase_def
  titleCaseRegex_def Plus_def reasonableLength_def spread_new_Set_def

lemma extract_abc: "extractPOICandidates ascii_runtime (js ''#abc'') = [js ''#abc'']"
  by (simp add: extract_simps)


lemma extract_greeting: "extractPOICandidates ascii_runtime (js ''hello, world!'') = []"
  by (simp add: extract_simps)

lemma extract_two:
  "extractPOICandidates ascii_runtime (js ''#xyz'' @ [0x0A] @ js ''#abd'') = [js ''#xyz'', js ''#abd'']"
  by (simp add: extract_simps)

lemma extract_example_ocr:
  "extractPOICandidates ascii_runtime (js ''hello world'' @ [0x0A] @ js ''#brunch'') = [js ''#brunch'']"
  by (simp add: extract_simps)


lemma example_valid:
  "is_uuid ascii_runtime (media_id example_body)"
  "list_all (is_url ascii_runtime) (frame_urls example_body)"
  by code_simp+

lemma two_frames_valid:
  "is_uuid ascii_runtime (media_id two_frames_body)"
  "list_all (is_url ascii_runtime) (frame_urls two_frames_body)"
  by code_simp+


lemma serve_example_request:
  "serve R W example_request s = serve R W \<lparr>req_method = js ''POST'', req_body = example_body\<rparr> s"
  by (simp add: example_request_def)

lemma serve_two_frames_request:
  "serve R W two_frames_request s = serve R W \<lparr>req_method = js ''POST'', req_body = two_frames_body\<rparr> s"
  by (simp add: two_frames_request_def)

subsection \<open>Values of the scorer\<close>

lemma row_step_cell:
  "row_step c (a # as) (d # u # prev) left =
     min (min (left + 1) (u + 1)) (d + (if a = c then 0 else 1))
       # row_step c as (u # prev) (min (min (left + 1) (u + 1)) (d + (if a = c then 0 else 1)))"
  by (simp add: Let_def)

lemma next_row_pair: "next_row str1 prev (j, c) = j # row_step c str1 prev j"
  by (simp add: next_row_def)

lemmas levenshtein_simps = levenshteinDistance_def row_step_cell next_row_pair upt_rec js_def

lemma levenshtein_values:
  "levenshteinDistance (js ''#abd'') (js ''#abc'') = 1"
  "levenshteinDistance (js ''#axd'') (js ''#abc'') = 2"
  "levenshteinDistance (js ''#abd'') (js ''#xyz'') = 3"
  "levenshteinDistance (js ''#abxy'') (js ''#abcd'') = 2"
  "levenshteinDistance (js ''#abcx'') (js ''#abcd'') = 1"
  by (simp_all add: levenshtein_simps del: row_step.simps(1))

lemma lower_values:
  "toLowerCase ascii_runtime (js ''#abc'') = js ''#abc''"
  "toLowerCase ascii_runtime (js ''#abd'') = js ''#abd''"
  "toLowerCase ascii_runtime (js ''#axd'') = js ''#axd''"
  "toLowerCase ascii_runtime (js ''#xyz'') = js ''#xyz''"
  "toLowerCase ascii_runtime (js ''#abcd'') = js ''#abcd''"
  "toLowerCase ascii_runtime (js ''#abxy'') = js ''#abxy''"
  "toLowerCase ascii_runtime (js ''#abcx'') = js ''#abcx''"
  "toLowerCase ascii_runtime (js ''joe's pizza'') = js ''joe's pizza''"
  "toLowerCase ascii_runtime (js ''Joe's Pizza'') = js ''joe's pizza''"
  by (simp_all add: ascii_runtime_def ascii_lower_def js_def isUpperAZ_def)

text \<open>
  The doubles of the examples: 0.75, 0.5 and 0.25 are what they are in the reals; 0.6,
  0.8 and 0.1 are the doubles next to them; 0.6 + 0.1 + 0.1 is the double below 0.8
  (\<^verbatim>\<open>0.7999999999999999\<close>), and 1 + 0.1 + 0.1 is the double above the one of 1.2
  (\<^verbatim>\<open>1.2000000000000002\<close>).
\<close>

lemma num_values:
  "num_div (num_sub 4 1) 4 = 3 / 4"
  "num_div (num_sub 4 2) 4 = 1 / 2"
  "num_div (num_sub 4 3) 4 = 1 / 4"
  "num_div (num_sub 5 2) 5 = 5404319552844595 / 9007199254740992"
  "num_div (num_sub 5 1) 5 = 3602879701896397 / 4503599627370496"
  "num_add (num_add (5404319552844595 / 9007199254740992) tenth) tenth = 7205759403792793 / 9007199254740992"
  "num_add (num_add 1 tenth) tenth = 1351079888211149 / 1125899906842624"
  "to_double (6 / 5) = 5404319552844595 / 4503599627370496"
  by code_simp+

lemma tenth_value: "tenth = 3602879701896397 / 36028797018963968"
  by code_simp

lemma similarity_values:
  "calculateSimilarity ascii_runtime (js ''#abc'') (js ''#abd'') = 3 / 4"
  "calculateSimilarity ascii_runtime (js ''#abc'') (js ''#axd'') = 1 / 2"
  "calculateSimilarity ascii_runtime (js ''#xyz'') (js ''#abd'') = 1 / 4"
  "calculateSimilarity ascii_runtime (js ''#abd'') (js ''#abd'') = 1"
  "calculateSimilarity ascii_runtime (js ''#abcd'') (js ''#abxy'') = 5404319552844595 / 9007199254740992"
  "calculateSimilarity ascii_runtime (js ''#abcd'') (js ''#abcx'') = 3602879701896397 / 4503599627370496"
  "calculateSimilarity ascii_runtime (js ''joe's pizza'') (js ''Joe's Pizza'') = 1"
proof -
  have l: "length (js ''#abc'') = 4" "length (js ''#abd'') = 4" "length (js ''#axd'') = 4"
    "length (js ''#xyz'') = 4" "length (js ''#abcd'') = 5" "length (js ''#abxy'') = 5"
    "length (js ''#abcx'') = 5"
    by (simp_all add: js_def)
  have ne: "js ''#abc'' \<noteq> js ''#abd''" "js ''#abc'' \<noteq> js ''#axd''" "js ''#xyz'' \<noteq> js ''#abd''"
    "js ''#abcd'' \<noteq> js ''#abxy''" "js ''#abcd'' \<noteq> js ''#abcx''"
    by (simp_all add: js_def)
  show "calculateSimilarity ascii_runtime (js ''#abc'') (js ''#abd'') = 3 / 4"
    unfolding calculateSimilarity_def lower_values Let_def
    by (simp add: l ne levenshtein_values num_values)
  show "calculateSimilarity ascii_runtime (js ''#abc'') (js ''#axd'') = 1 / 2"
    unfolding calculateSimilarity_def lower_values Let_def
    by (simp add: l ne levenshtein_values num_values)
  show "calculateSimilarity ascii_runtime (js ''#xyz'') (js ''#abd'') = 1 / 4"
    unfolding calculateSimilarity_def lower_values Let_def
    by (simp add: l ne levenshtein_values num_values)
  show "calculateSimilarity ascii_runtime (js ''#abd'') (js ''#abd'') = 1"
    unfolding calculateSimilarity_def lower_values Let_def by simp
  show "calculateSimilarity ascii_runtime (js ''#abcd'') (js ''#abxy'') = 5404319552844595 / 9007199254740992"
    unfolding calculateSimilarity_def lower_values Let_def
    by (simp add: l ne levenshtein_values num_values)
  show "calculateSimilarity ascii_runtime (js ''#abcd'') (js ''#abcx'') = 3602879701896397 / 4503599627370496"
    unfolding calculateSimilarity_def lower_values Let_def
    by (simp add: l ne levenshtein_values num_values)
  show "calculateSimilarity ascii_runtime (js ''joe's pizza'') (js ''Joe's Pizza'') = 1"
    unfolding calculateSimilarity_def lower_values Let_def by simp
qed

lemma place_names:
  "name example_place = js ''Joe's Pizza''"
  "name plain_place = js ''#abd''"
  "name low_score_place = js ''#axd''"
  "name near_place = js ''#abcx''"
  "name near_twin = js ''#abcx''"
  "name far_place = js ''#abxy''"
  by (simp_all add: example_place_def plain_place_def low_score_place_def near_place_def
        near_twin_def far_place_def)

lemma bonus_values:
  "hasFoodType example_place" "hasHighRating example_place"
  "\<not> hasFoodType plain_place" "\<not> hasHighRating plain_place"
  "\<not> hasFoodType low_score_place" "\<not> hasHighRating low_score_place"
  "\<not> hasFoodType near_place" "\<not> hasHighRating near_place"
  "\<not> hasFoodType near_twin" "\<not> hasHighRating near_twin"
  "hasFoodType far_place" "hasHighRating far_place"
  by code_simp+

lemma add_bonuses_values:
  "add_bonuses example_place x = num_add (num_add x tenth) tenth"
  "add_bonuses plain_place x = x"
  "add_bonuses low_score_place x = x"
  "add_bonuses near_place x = x"
  "add_bonuses near_twin x = x"
  "add_bonuses far_place x = num_add (num_add x tenth) tenth"
  by (simp_all add: add_bonuses_def bonus_values)

lemma score_extend: "score (PlaceSearchResult.extend place (ScoredPlace.fields x)) = x"
  by (simp add: PlaceSearchResult.extend_def ScoredPlace.fields_def)

lemma name_extend: "name (PlaceSearchResult.extend place (ScoredPlace.fields x)) = name place"
  by (simp add: PlaceSearchResult.extend_def ScoredPlace.fields_def)

lemma score_place_one:
  "score_place R [c] place =
     PlaceSearchResult.extend place (ScoredPlace.fields
       (max 0 (add_bonuses place (calculateSimilarity R c (name place)))))"
  by (simp add: score_place_def score_step_eq)

lemma score_place_two:
  "score_place R [c, d] place =
     PlaceSearchResult.extend place (ScoredPlace.fields
       (max (max 0 (add_bonuses place (calculateSimilarity R c (name place))))
            (add_bonuses place (calculateSimilarity R d (name place)))))"
  by (simp add: score_place_def score_step_eq)

lemma score_place_values:
  "score_place ascii_runtime [js ''#abc''] plain_place
     = PlaceSearchResult.extend plain_place (ScoredPlace.fields (3 / 4))"
  "score_place ascii_runtime [js ''#abc''] low_score_place
     = PlaceSearchResult.extend low_score_place (ScoredPlace.fields (1 / 2))"
  "score_place ascii_runtime [js ''#xyz'', js ''#abd''] plain_place
     = PlaceSearchResult.extend plain_place (ScoredPlace.fields 1)"
  "score_place ascii_runtime [js ''#abcd''] far_place
     = PlaceSearchResult.extend far_place (ScoredPlace.fields (7205759403792793 / 9007199254740992))"
  "score_place ascii_runtime [js ''#abcd''] near_place
     = PlaceSearchResult.extend near_place (ScoredPlace.fields (3602879701896397 / 4503599627370496))"
  "score_place ascii_runtime [js ''#abcd''] near_twin
     = PlaceSearchResult.extend near_twin (ScoredPlace.fields (3602879701896397 / 4503599627370496))"
  "score_place ascii_runtime [js ''joe's pizza''] example_place
     = PlaceSearchResult.extend example_place (ScoredPlace.fields (1351079888211149 / 1125899906842624))"
  by (simp_all only: score_place_one score_place_two place_names similarity_values add_bonuses_values
        num_values)
     simp_all

lemma scorePlaceCandidates_one:
  "scorePlaceCandidates R candidates [place] = [score_place R candidates place]"
  by (simp add: scorePlaceCandidates_def array_sort_def)

lemma scored_abc:
  "scorePlaceCandidates ascii_runtime [js ''#abc''] [plain_place]
     = [PlaceSearchResult.extend plain_place (ScoredPlace.fields (3 / 4))]"
  "scorePlaceCandidates ascii_runtime [js ''#abc''] [low_score_place]
     = [PlaceSearchResult.extend low_score_place (ScoredPlace.fields (1 / 2))]"
  "scorePlaceCandidates ascii_runtime [js ''#xyz'', js ''#abd''] [plain_place]
     = [PlaceSearchResult.extend plain_place (ScoredPlace.fields 1)]"
  "scorePlaceCandidates ascii_runtime [js ''joe's pizza''] [example_place]
     = [PlaceSearchResult.extend example_place (ScoredPlace.fields (1351079888211149 / 1125899906842624))]"
  by (simp_all only: scorePlaceCandidates_one score_place_values)

text \<open>
  The place two edits away with both bonuses comes after the places one edit away
  without bonus: 0.6 + 0.1 + 0.1 is below 0.8 in double arithmetic.
\<close>

lemma scored_abcd:
  "scorePlaceCandidates ascii_runtime [js ''#abcd''] [far_place, near_place]
     = [PlaceSearchResult.extend near_place (ScoredPlace.fields (3602879701896397 / 4503599627370496)),
        PlaceSearchResult.extend far_place (ScoredPlace.fields (7205759403792793 / 9007199254740992))]"
  "scorePlaceCandidates ascii_runtime [js ''#abcd''] [far_place, near_place, near_twin]
     = [PlaceSearchResult.extend near_place (ScoredPlace.fields (3602879701896397 / 4503599627370496)),
        PlaceSearchResult.extend near_twin (ScoredPlace.fields (3602879701896397 / 4503599627370496)),
        PlaceSearchResult.extend far_place (ScoredPlace.fields (7205759403792793 / 9007199254740992))]"
  unfolding scorePlaceCandidates_sort_key
  by (simp_all add: score_place_values score_extend)

subsection \<open>Values of the runs\<close>









lemma failing_store_world_text:
  "aggregate_text ascii_runtime (run_ocr failing_store_world example_body example_state) = js ''#abc''"
  by code_simp

lemma failing_store_world_candidates:
  "run_candidates ascii_runtime failing_store_world example_body example_state = [js ''#abc'']"
  by (simp only: run_candidates_def failing_store_world_text extract_abc)

lemma failing_store_world_places:
  "run_places ascii_runtime failing_store_world example_body example_state = [plain_place]"
  unfolding run_places_def failing_store_world_candidates by code_simp

lemma failing_store_world_scored:
  "run_scored ascii_runtime failing_store_world example_body example_state
     = [PlaceSearchResult.extend plain_place (ScoredPlace.fields (3 / 4))]"
  unfolding run_scored_def failing_store_world_candidates failing_store_world_places
  by (rule scored_abc(1))









lemma two_candidates_world_text:
  "aggregate_text ascii_runtime (run_ocr two_candidates_world example_body example_state)
     = js ''#xyz'' @ [0x0A] @ js ''#abd''"
  by code_simp

lemma two_candidates_world_candidates:
  "run_candidates ascii_runtime two_candidates_world example_body example_state = [js ''#xyz'', js ''#abd'']"
  by (simp only: run_candidates_def two_candidates_world_text extract_two)

lemma two_candidates_world_places:
  "run_places ascii_runtime two_candidates_world example_body example_state = [plain_place]"
  unfolding run_places_def two_candidates_world_candidates by code_simp

lemma two_candidates_world_scored:
  "run_scored ascii_runtime two_candidates_world example_body example_state
     = [PlaceSearchResult.extend plain_place (ScoredPlace.fields 1)]"
  unfolding run_scored_def two_candidates_world_candidates two_candidates_world_places
  by (rule scored_abc(3))

lemma two_frames_world_text:
  "aggregate_text ascii_runtime (run_ocr two_frames_world two_frames_body example_state) = js ''hello, world!''"
  by code_simp

lemma two_frames_world_candidates:
  "run_candidates ascii_runtime two_frames_world two_frames_body example_state = []"
  by (simp only: run_candidates_def two_frames_world_text extract_greeting)

lemma two_frames_world_normalized:
  "run_text ascii_runtime two_frames_world two_frames_body example_state = js ''hello world''"
  unfolding run_text_def two_frames_world_text by code_simp

lemma two_frames_failing_world_text:
  "aggregate_text ascii_runtime (run_ocr two_frames_failing_world two_frames_body example_state)
     = js ''hello, world!''"
  by code_simp

lemma two_frames_failing_world_candidates:
  "run_candidates ascii_runtime two_frames_failing_world two_frames_body example_state = []"
  by (simp only: run_candidates_def two_frames_failing_world_text extract_greeting)

lemma two_frames_failing_world_normalized:
  "run_text ascii_runtime two_frames_failing_world two_frames_body example_state = js ''hello world''"
  unfolding run_text_def two_frames_failing_world_text by code_simp

lemma two_frames_failing_world_calls:
  "calls (run_state1 two_frames_failing_world two_frames_body example_state)
     = [VisionCall (js ''https://x/1.jpg''), VisionCall (js ''https://x/2.jpg'')]"
  by code_simp

subsection \<open>The scorer on the example places\<close>

theorem scorePlaceCandidates_sorted_stable_witness:
  "scorePlaceCandidates ascii_runtime [js ''#abcd''] [far_place, near_place, near_twin]
     = [PlaceSearchResult.extend near_place (ScoredPlace.fields (3602879701896397 / 4503599627370496)),
        PlaceSearchResult.extend near_twin (ScoredPlace.fields (3602879701896397 / 4503599627370496)),
        PlaceSearchResult.extend far_place (ScoredPlace.fields (7205759403792793 / 9007199254740992))]
   \<and> map (score_place ascii_runtime [js ''#abcd'']) [far_place, near_place, near_twin]
     = [PlaceSearchResult.extend far_place (ScoredPlace.fields (7205759403792793 / 9007199254740992)),
        PlaceSearchResult.extend near_place (ScoredPlace.fields (3602879701896397 / 4503599627370496)),
        PlaceSearchResult.extend near_twin (ScoredPlace.fields (3602879701896397 / 4503599627370496))]
   \<and> sorted_wrt (\<lambda>a b. score a \<ge> score b)
        (scorePlaceCandidates ascii_runtime [js ''#abcd''] [far_place, near_place, near_twin])
   \<and> filter (\<lambda>p. score p = 3602879701896397 / 4503599627370496)
        (scorePlaceCandidates ascii_runtime [js ''#abcd''] [far_place, near_place, near_twin])
     = filter (\<lambda>p. score p = 3602879701896397 / 4503599627370496)
        (map (score_place ascii_runtime [js ''#abcd'']) [far_place, near_place, near_twin])
   \<and> mset (scorePlaceCandidates ascii_runtime [js ''#abcd''] [far_place, near_place, near_twin])
     = mset (map (score_place ascii_runtime [js ''#abcd'']) [far_place, near_place, near_twin])"
proof -
  note t = scorePlaceCandidates_sorted_stable
             [of ascii_runtime "[js ''#abcd'']" "[far_place, near_place, near_twin]"]
  have m: "map (score_place ascii_runtime [js ''#abcd'']) [far_place, near_place, near_twin]
     = [PlaceSearchResult.extend far_place (ScoredPlace.fields (7205759403792793 / 9007199254740992)),
        PlaceSearchResult.extend near_place (ScoredPlace.fields (3602879701896397 / 4503599627370496)),
        PlaceSearchResult.extend near_twin (ScoredPlace.fields (3602879701896397 / 4503599627370496))]"
    by (simp add: score_place_values)
  from t have s: "sorted_wrt (\<lambda>a b. score a \<ge> score b)
        (scorePlaceCandidates ascii_runtime [js ''#abcd''] [far_place, near_place, near_twin])"
    by (rule conjunct1)
  from t[THEN conjunct2, THEN conjunct1, THEN spec, of "3602879701896397 / 4503599627370496"]
  have f: "filter (\<lambda>p. score p = 3602879701896397 / 4503599627370496)
        (scorePlaceCandidates ascii_runtime [js ''#abcd''] [far_place, near_place, near_twin])
     = filter (\<lambda>p. score p = 3602879701896397 / 4503599627370496)
        (map (score_place ascii_runtime [js ''#abcd'']) [far_place, near_place, near_twin])" .
  from t have ms: "mset (scorePlaceCandidates ascii_runtime [js ''#abcd''] [far_place, near_place, near_twin])
     = mset (map (score_place ascii_runtime [js ''#abcd'']) [far_place, near_place, near_twin])"
    by (rule conjunct2[THEN conjunct2])
  show ?thesis
    by (intro conjI) (fact scored_abcd(2) m s f ms)+
qed



subsection \<open>The handler on the example requests\<close>



text \<open>
  Claim C3. The handler rejects a malformed body before any outbound call and leaves the
  store as it is (the run adds one line to the console and nothing else), but the
  response has the status 500, a server error: the exception of the schema goes to the
  one \<^verbatim>\<open>catch\<close> of the handler.
\<close>

theorem malformed_request_server_error:
  "\<not> is_uuid ascii_runtime (media_id (req_body bad_id_request))
   \<and> serve ascii_runtime example_world bad_id_request example_state =
       (Response 500 (ErrorBody ZodError),
        example_state\<lparr>console := console example_state @
           [ConsoleError (js ''Process media error:'') ZodError]\<rparr>)
   \<and> \<not> list_all (is_url ascii_runtime) (frame_urls (req_body bad_url_request))
   \<and> serve ascii_runtime example_world bad_url_request example_state =
       (Response 500 (ErrorBody ZodError),
        example_state\<lparr>console := console example_state @
           [ConsoleError (js ''Process media error:'') ZodError]\<rparr>)
   \<and> calls example_state = []"
proof -
  have a: "\<not> is_uuid ascii_runtime (media_id (req_body bad_id_request))" by code_simp
  have b: "\<not> list_all (is_url ascii_runtime) (frame_urls (req_body bad_url_request))" by code_simp
  have ra: "bad_id_request = \<lparr>req_method = js ''POST'', req_body = req_body bad_id_request\<rparr>"
    by (simp add: bad_id_request_def)
  have rb: "bad_url_request = \<lparr>req_method = js ''POST'', req_body = req_body bad_url_request\<rparr>"
    by (simp add: bad_url_request_def)
  have sa: "serve ascii_runtime example_world bad_id_request example_state =
           (Response 500 (ErrorBody ZodError),
            example_state\<lparr>console := console example_state @ [ConsoleError (js ''Process media error:'') ZodError]\<rparr>)"
    using malformed_request_rejected[of ascii_runtime "req_body bad_id_request" example_world example_state] a ra
    by simp
  have sb: "serve ascii_runtime example_world bad_url_request example_state =
           (Response 500 (ErrorBody ZodError),
            example_state\<lparr>console := console example_state @ [ConsoleError (js ''Process media error:'') ZodError]\<rparr>)"
    using malformed_request_rejected[of ascii_runtime "req_body bad_url_request" example_world example_state] b rb
    by simp
  have c: "calls example_state = []" by (simp add: example_state_def)
  show ?thesis
    by (intro conjI) (fact a sa b sb c)+
qed

text \<open>
  Claim C4. The store rejects the update of the media row and the handler does not look
  at the result: it answers \<^verbatim>\<open>confirmed\<close> while the row has still the status
  \<^verbatim>\<open>processing\<close> and no restaurant.
\<close>

theorem status_write_failure_ignored:
  "media_update_error failing_store_world = Some (js ''connection lost'')
   \<and> fst (serve ascii_runtime failing_store_world example_request example_state)
       = Response 200 (ConfirmedBody (js ''r1'') (3 / 4))
   \<and> media (snd (serve ascii_runtime failing_store_world example_request example_state)) example_media_id
       = Some \<lparr>m_user_id = js ''u1'', m_restaurant_id = None, m_ocr_text = None,
               m_status = StatusProcessing\<rparr>"
proof -
  have u: "media_update_error failing_store_world = Some (js ''connection lost'')"
    by (simp add: failing_store_world_def)
  have ok: "restaurant_insert_error failing_store_world = None"
    by (simp add: failing_store_world_def example_world_def)
  have rid: "new_restaurant_id failing_store_world = js ''r1''"
    by (simp add: failing_store_world_def example_world_def)
  have hi: "score (PlaceSearchResult.extend plain_place (ScoredPlace.fields (3 / 4))) \<ge> 3 / 4"
    and sc: "score (PlaceSearchResult.extend plain_place (ScoredPlace.fields (3 / 4))) = 3 / 4"
    by (simp_all add: score_extend)
  have p: "run_places ascii_runtime failing_store_world example_body example_state \<noteq> []"
    by (simp add: failing_store_world_places)
  note s = serve_confirmed[OF example_valid failing_store_world_candidates p
             failing_store_world_scored hi ok]
  have r: "fst (serve ascii_runtime failing_store_world example_request example_state)
       = Response 200 (ConfirmedBody (js ''r1'') (3 / 4))"
    by (simp add: serve_example_request s rid sc)
  have "media (snd (serve ascii_runtime failing_store_world example_request example_state)) example_media_id
       = media example_state example_media_id"
    by (simp add: serve_example_request s insert_cache_effects update_media_rejected[OF u] run_state_tables)
  then have m: "media (snd (serve ascii_runtime failing_store_world example_request example_state)) example_media_id
       = Some \<lparr>m_user_id = js ''u1'', m_restaurant_id = None, m_ocr_text = None,
               m_status = StatusProcessing\<rparr>"
    by (simp add: example_state_def example_row_def)
  from u r m show ?thesis by (intro conjI)
qed

text \<open>
  Claim C6. Two frames read \<^verbatim>\<open>Hello,\<close> and \<^verbatim>\<open>World!\<close>; the aggregated text
  \<^verbatim>\<open>hello, world!\<close> has no candidate (as the empty text has none), and after the two
  calls of the recognition the handler makes one more call, the update of the media row
  with the status \<^verbatim>\<open>needs_confirmation\<close> and the normalized text \<^verbatim>\<open>hello world\<close>, and
  answers \<^verbatim>\<open>needs_confirmation\<close> with no candidate and that text; it makes no place
  search. But the store rejects the update and the handler does not look at the result:
  the status and the text are not persisted, the row has still the status
  \<^verbatim>\<open>processing\<close> and no text. With a store that applies the update the row holds them.
\<close>

theorem no_candidates_status_write_ignored:
  "aggregate_text ascii_runtime (run_ocr two_frames_failing_world two_frames_body example_state)
       = js ''hello, world!''
   \<and> run_candidates ascii_runtime two_frames_failing_world two_frames_body example_state = []
   \<and> extractPOICandidates ascii_runtime [] = []
   \<and> media_update_error two_frames_failing_world = Some (js ''connection lost'')
   \<and> fst (serve ascii_runtime two_frames_failing_world two_frames_request example_state)
       = Response 200 (NeedsConfirmationBody [] (js ''hello world''))
   \<and> calls (snd (serve ascii_runtime two_frames_failing_world two_frames_request example_state))
       = [VisionCall (js ''https://x/1.jpg''), VisionCall (js ''https://x/2.jpg''),
          MediaUpdate example_media_id None StatusNeedsConfirmation (js ''hello world'')]
   \<and> filter is_places_call
        (calls (snd (serve ascii_runtime two_frames_failing_world two_frames_request example_state))) = []
   \<and> media (snd (serve ascii_runtime two_frames_failing_world two_frames_request example_state)) example_media_id
       = Some \<lparr>m_user_id = js ''u1'', m_restaurant_id = None, m_ocr_text = None,
               m_status = StatusProcessing\<rparr>
   \<and> media_update_error two_frames_world = None
   \<and> media (snd (serve ascii_runtime two_frames_world two_frames_request example_state)) example_media_id
       = Some \<lparr>m_user_id = js ''u1'', m_restaurant_id = None, m_ocr_text = Some (js ''hello world''),
               m_status = StatusNeedsConfirmation\<rparr>"
proof -
  have mid: "media_id two_frames_body = example_media_id"
    by (simp add: two_frames_body_def example_body_def)
  have u: "media_update_error two_frames_failing_world = Some (js ''connection lost'')"
    by (simp add: two_frames_failing_world_def)
  have v: "media_update_error two_frames_world = None"
    by (simp add: two_frames_world_def example_world_def)
  have row: "media example_state example_media_id = Some example_row"
    by (simp add: example_state_def)
  note f = serve_no_candidates[OF two_frames_valid two_frames_failing_world_candidates]
  note g = serve_no_candidates[OF two_frames_valid two_frames_world_candidates]
  have r: "fst (serve ascii_runtime two_frames_failing_world two_frames_request example_state)
       = Response 200 (NeedsConfirmationBody [] (js ''hello world''))"
    by (simp add: serve_two_frames_request f two_frames_failing_world_normalized)
  have c: "calls (snd (serve ascii_runtime two_frames_failing_world two_frames_request example_state))
       = [VisionCall (js ''https://x/1.jpg''), VisionCall (js ''https://x/2.jpg''),
          MediaUpdate example_media_id None StatusNeedsConfirmation (js ''hello world'')]"
    by (simp add: serve_two_frames_request f update_media_effects two_frames_failing_world_calls
          two_frames_failing_world_normalized mid)
  have np: "filter is_places_call
        (calls (snd (serve ascii_runtime two_frames_failing_world two_frames_request example_state))) = []"
    unfolding c by (simp add: is_places_call_def)
  have "media (snd (serve ascii_runtime two_frames_failing_world two_frames_request example_state)) example_media_id
       = media example_state example_media_id"
    by (simp add: serve_two_frames_request f update_media_rejected[OF u] run_state_tables)
  then have m: "media (snd (serve ascii_runtime two_frames_failing_world two_frames_request example_state)) example_media_id
       = Some \<lparr>m_user_id = js ''u1'', m_restaurant_id = None, m_ocr_text = None,
               m_status = StatusProcessing\<rparr>"
    by (simp add: example_state_def example_row_def)
  have "media (run_state1 two_frames_world two_frames_body example_state) example_media_id = Some example_row"
    by (simp add: run_state_tables row)
  from update_media_applied[OF v this, of None StatusNeedsConfirmation "js ''hello world''"]
  have n: "media (snd (serve ascii_runtime two_frames_world two_frames_request example_state)) example_media_id
       = Some \<lparr>m_user_id = js ''u1'', m_restaurant_id = None, m_ocr_text = Some (js ''hello world''),
               m_status = StatusNeedsConfirmation\<rparr>"
    by (simp add: serve_two_frames_request g two_frames_world_normalized mid example_row_def)
  show ?thesis
    by (intro conjI)
       (fact two_frames_failing_world_text two_frames_failing_world_candidates
             extractPOICandidates_empty_text u r c np m v n)+
qed

text \<open>
  Claim C8. The frame reads the lines \<^verbatim>\<open>#XYZ\<close> and \<^verbatim>\<open>#abd\<close>, and the search finds the
  place \<^verbatim>\<open>#abd\<close> for the second one. The candidate that has the greatest similarity to
  the confirmed place is \<^verbatim>\<open>#abd\<close> (similarity 1, against 0.25), and the cache entry that
  the handler writes has the query \<^verbatim>\<open>#xyz\<close>, the first candidate of the extraction: the
  scorer returns the greatest similarity and not the candidate that has it.
\<close>

theorem cache_entry_not_winning_candidate:
  "run_candidates ascii_runtime two_candidates_world example_body example_state = [js ''#xyz'', js ''#abd'']
   \<and> fst (serve ascii_runtime two_candidates_world example_request example_state)
       = Response 200 (ConfirmedBody (js ''r1'') 1)
   \<and> map c_normalized_query
        (place_cache (snd (serve ascii_runtime two_candidates_world example_request example_state)))
       = [js ''#xyz'']
   \<and> map c_name
        (place_cache (snd (serve ascii_runtime two_candidates_world example_request example_state)))
       = [js ''#abd'']
   \<and> calculateSimilarity ascii_runtime (js ''#xyz'') (js ''#abd'') = 1 / 4
   \<and> calculateSimilarity ascii_runtime (js ''#abd'') (js ''#abd'') = 1"
proof -
  have ok: "restaurant_insert_error two_candidates_world = None"
    by (simp add: two_candidates_world_def example_world_def)
  have co: "cache_insert_error two_candidates_world = None"
    by (simp add: two_candidates_world_def example_world_def)
  have rid: "new_restaurant_id two_candidates_world = js ''r1''"
    by (simp add: two_candidates_world_def example_world_def)
  have hi: "score (PlaceSearchResult.extend plain_place (ScoredPlace.fields 1)) \<ge> 3 / 4"
    and sc: "score (PlaceSearchResult.extend plain_place (ScoredPlace.fields 1)) = 1"
    by (simp_all add: score_extend)
  have p: "run_places ascii_runtime two_candidates_world example_body example_state \<noteq> []"
    by (simp add: two_candidates_world_places)
  note s = serve_confirmed[OF example_valid two_candidates_world_candidates p
             two_candidates_world_scored hi ok]
  have r: "fst (serve ascii_runtime two_candidates_world example_request example_state)
       = Response 200 (ConfirmedBody (js ''r1'') 1)"
    by (simp add: serve_example_request s rid sc)
  have ic: "place_cache (insert_cache two_candidates_world row st) = place_cache st @ [row]" for row st
    using insert_cache_effects[of two_candidates_world row st] co by simp
  have "place_cache (snd (serve ascii_runtime two_candidates_world example_request example_state))
       = place_cache example_state @
           [new_cache_entry ascii_runtime example_body (js ''#xyz'')
              (PlaceSearchResult.extend plain_place (ScoredPlace.fields 1))]"
    by (simp add: serve_example_request s ic update_media_effects run_state_tables)
  then have pc: "place_cache (snd (serve ascii_runtime two_candidates_world example_request example_state))
       = [new_cache_entry ascii_runtime example_body (js ''#xyz'')
            (PlaceSearchResult.extend plain_place (ScoredPlace.fields 1))]"
    by (simp add: example_state_def)
  have q: "map c_normalized_query
        (place_cache (snd (serve ascii_runtime two_candidates_world example_request example_state)))
       = [js ''#xyz'']"
    by (simp add: pc new_cache_entry_def lower_values)
  have n: "map c_name
        (place_cache (snd (serve ascii_runtime two_candidates_world example_request example_state)))
       = [js ''#abd'']"
    by (simp add: pc new_cache_entry_def name_extend place_names)
  show ?thesis
    by (intro conjI)
       (fact two_candidates_world_candidates r q n similarity_values(3) similarity_values(4))+
qed

theorem pipeline_candidates_never_title_case_witness:
  "\<not> (\<exists>str. \<exists>c \<in> set (toLowerCase ascii_runtime str). isUpperAZ c)
   \<and> text_lines (aggregate_text ascii_runtime example_ocr) = [js ''hello world'', js ''#brunch'']
   \<and> isTitleCase (js ''Hello World'')
   \<and> \<not> isTitleCase (js ''hello world'')
   \<and> extractPOICandidates ascii_runtime (aggregate_text ascii_runtime example_ocr) = [js ''#brunch'']
   \<and> (hasFoodKeyword ascii_runtime (js ''#brunch'') \<or> hasSocialIndicator (js ''#brunch''))"
proof -
  have h: "\<forall>str. \<forall>c \<in> set (toLowerCase ascii_runtime str). \<not> isUpperAZ c"
    using ascii_lower_no_upper by (simp add: ascii_runtime_def)
  then have h': "\<not> (\<exists>str. \<exists>c \<in> set (toLowerCase ascii_runtime str). isUpperAZ c)"
    by blast
  have ag: "aggregate_text ascii_runtime example_ocr = js ''hello world'' @ [0x0A] @ js ''#brunch''"
    by code_simp
  have tl: "text_lines (aggregate_text ascii_runtime example_ocr) = [js ''hello world'', js ''#brunch'']"
    unfolding ag by code_simp
  have ex: "extractPOICandidates ascii_runtime (aggregate_text ascii_runtime example_ocr) = [js ''#brunch'']"
    unfolding ag by (rule extract_example_ocr)
  have tc: "isTitleCase (js ''Hello World'')" by code_simp
  note t = pipeline_candidates_never_title_case[OF h, of example_ocr]
  from t have "\<forall>line \<in> set (text_lines (aggregate_text ascii_runtime example_ocr)). \<not> isTitleCase line"
    by (rule conjunct1)
  then have nt: "\<not> isTitleCase (js ''hello world'')"
    unfolding tl by simp
  from t have "\<forall>cand \<in> set (extractPOICandidates ascii_runtime (aggregate_text ascii_runtime example_ocr)).
             hasFoodKeyword ascii_runtime cand \<or> hasSocialIndicator cand"
    by (rule conjunct2)
  then have kw: "hasFoodKeyword ascii_runtime (js ''#brunch'') \<or> hasSocialIndicator (js ''#brunch'')"
    unfolding ex by simp
  show ?thesis
    by (intro conjI) (fact h' tl tc nt ex kw)+
qed

end
